theory Spec2Isabelle
  imports Main "HOL-Library.Sublist"
begin

section \<open>The XML tree\<close>

text \<open>
  The xtb file works on the tree that the DOM parser (xmldom) returns. A node is an element
  (tag name, attributes in document order, child nodes) or a text node. A document is the
  list of the child nodes of the DOM's document node, so a text without any element is the
  empty document.
\<close>

datatype xml_node =
    Element (tagName: string) (attributes: "(string \<times> string) list") (childNodes: "xml_node list")
  | TextNode string

type_synonym document = "xml_node list"

text \<open>
  \<^verbatim>\<open>getElementsByTagName\<close>: every descendant element with the tag, in document order
  (an element before its children). \<open>elementsOf\<close> looks at a node and below it,
  \<open>elementsIn\<close> at a list of siblings.
\<close>

fun elementsOf :: "string \<Rightarrow> xml_node \<Rightarrow> xml_node list"
  and elementsIn :: "string \<Rightarrow> xml_node list \<Rightarrow> xml_node list" where
  "elementsOf t (TextNode s) = []"
| "elementsOf t (Element n as cs) = (if n = t then [Element n as cs] else []) @ elementsIn t cs"
| "elementsIn t [] = []"
| "elementsIn t (c # cs) = elementsOf t c @ elementsIn t cs"

definition getElementsByTagName :: "document \<Rightarrow> string \<Rightarrow> xml_node list" where
  "getElementsByTagName doc t = elementsIn t doc"

text \<open>
  Modelled from the spec: \<^verbatim>\<open>DOMUtilities\<close> is not among the source files.
  \<^verbatim>\<open>getFirstElementByTagName\<close> is the get-first of the tree provider: the first element
  with the tag, or null when there is none.
\<close>

definition getFirstElementByTagName :: "document \<Rightarrow> string \<Rightarrow> xml_node option" where
  "getFirstElementByTagName doc t =
     (case getElementsByTagName doc t of [] \<Rightarrow> None | e # _ \<Rightarrow> Some e)"

text \<open>
  \<^verbatim>\<open>getAttribute\<close> of xmldom gives the empty string for an attribute that the element
  does not have. \<^verbatim>\<open>setAttribute\<close> replaces the value of an attribute in place or adds the
  attribute at the end.
\<close>

fun getAttribute :: "xml_node \<Rightarrow> string \<Rightarrow> string" where
  "getAttribute (Element n as cs) a = (case map_of as a of Some v \<Rightarrow> v | None \<Rightarrow> [])"
| "getAttribute (TextNode s) a = []"

fun setAttr :: "string \<Rightarrow> string \<Rightarrow> (string \<times> string) list \<Rightarrow> (string \<times> string) list" where
  "setAttr a v [] = [(a, v)]"
| "setAttr a v ((k, w) # as) = (if k = a then (k, v) # as else (k, w) # setAttr a v as)"

fun setAttribute :: "string \<Rightarrow> string \<Rightarrow> xml_node \<Rightarrow> xml_node" where
  "setAttribute a v (Element n as cs) = Element n (setAttr a v as) cs"
| "setAttribute a v (TextNode s) = TextNode s"

fun appendChild :: "xml_node \<Rightarrow> xml_node \<Rightarrow> xml_node" where
  "appendChild new (Element n as cs) = Element n as (cs @ [new])"
| "appendChild new (TextNode s) = TextNode s"

text \<open>
  The code changes the element that \<^verbatim>\<open>getFirstElementByTagName\<close> returned, and with it
  the tree that holds the element. \<open>modifyFirstOf\<close> and \<open>modifyFirstIn\<close> rebuild the tree
  with \<open>f\<close> applied to the first element with the tag, in the order of
  \<open>elementsOf\<close>; the result is \<open>None\<close> when no element has the tag.
\<close>

fun modifyFirstOf :: "string \<Rightarrow> (xml_node \<Rightarrow> xml_node) \<Rightarrow> xml_node \<Rightarrow> xml_node option"
  and modifyFirstIn :: "string \<Rightarrow> (xml_node \<Rightarrow> xml_node) \<Rightarrow> xml_node list \<Rightarrow> xml_node list option" where
  "modifyFirstOf t f (TextNode s) = None"
| "modifyFirstOf t f (Element n as cs) =
     (if n = t then Some (f (Element n as cs))
      else (case modifyFirstIn t f cs of None \<Rightarrow> None | Some cs' \<Rightarrow> Some (Element n as cs')))"
| "modifyFirstIn t f [] = None"
| "modifyFirstIn t f (c # cs) =
     (case modifyFirstOf t f c of
        Some c' \<Rightarrow> Some (c' # cs)
      | None \<Rightarrow> (case modifyFirstIn t f cs of None \<Rightarrow> None | Some cs' \<Rightarrow> Some (c # cs')))"

definition modifyFirstElementByTagName :: "document \<Rightarrow> string \<Rightarrow> (xml_node \<Rightarrow> xml_node) \<Rightarrow> document" where
  "modifyFirstElementByTagName doc t f =
     (case modifyFirstIn t f doc of None \<Rightarrow> doc | Some doc' \<Rightarrow> doc')"

section \<open>Messages of warnings and errors\<close>

text \<open>\<^verbatim>\<open>format('%s', n)\<close> of a number: its decimal digits.\<close>

fun show_nat :: "nat \<Rightarrow> string" where
  "show_nat n =
     (if n < 10 then [''0123456789'' ! n]
      else show_nat (n div 10) @ [''0123456789'' ! (n mod 10)])"

declare show_nat.simps [simp del]

definition missing_id_warning :: "string \<Rightarrow> string" where
  "missing_id_warning fname =
     ''oops, msg without \"id\" found in master, please check file '' @ fname"

definition master_mismatch_warning :: "nat \<Rightarrow> nat \<Rightarrow> string" where
  "master_mismatch_warning numberInMaster myNumber =
     show_nat numberInMaster @ '' trans units found in master, but this file has ''
       @ show_nat myNumber @ ''. Check if it is the correct master''"

datatype error = Error (message: string)

definition no_xtb_file_error :: "string \<Rightarrow> error" where
  "no_xtb_file_error p =
     Error (''File \"'' @ p @ ''\" seems to be no xtb file (should contain a translationbundle element)'')"

definition no_xmb_file_error :: "string \<Rightarrow> error" where
  "no_xmb_file_error p =
     Error (''File \"'' @ p @ ''\" seems to be no xmb file. An xtb file needs xmb as master file.'')"

definition duplicate_id_error :: "string \<Rightarrow> error" where
  "duplicate_id_error i =
     Error (''tu with id '' @ i @ '' already exists in file, cannot import it'')"

section \<open>Trans units, the master file and the collaborators\<close>

text \<open>
  A unit of another file, as \<^verbatim>\<open>importNewTransUnit\<close> and the xtb units read it through
  \<^verbatim>\<open>ITransUnit\<close>: its \<^verbatim>\<open>id\<close> and its \<^verbatim>\<open>sourceContent()\<close>, both declared \<^verbatim>\<open>string\<close>.
\<close>

record trans_unit =
  tu_id :: string
  tu_sourceContent :: string

text \<open>
  An \<^verbatim>\<open>XtbTransUnit\<close> holds what its constructor gets: the \<^verbatim>\<open>translation\<close> element, the id
  and the unit of the master (null when there is none). The element is the one of the tree
  at the time the unit is created.
\<close>

record xtb_trans_unit =
  unit_element :: xml_node
  unit_id :: string
  sourceTransUnitFromMaster :: "trans_unit option"

text \<open>
  Modelled from the spec: class \<^verbatim>\<open>XmbFile\<close> (the master, the companion dialect) is not
  among the source files. It is a document with an ordered sequence of units, the count of
  them, a lookup by id, and an optional source language.
\<close>

record xmb_file =
  xmb_transUnits :: "trans_unit list"
  xmb_sourceLanguage :: "string option"

definition xmb_numberOfTransUnits :: "xmb_file \<Rightarrow> nat" where
  "xmb_numberOfTransUnits m = length (xmb_transUnits m)"

definition xmb_transUnitWithId :: "xmb_file \<Rightarrow> string \<Rightarrow> trans_unit option" where
  "xmb_transUnitWithId m i = find (\<lambda>u. tu_id u = i) (xmb_transUnits m)"

text \<open>
  What the file calls and does not define is a parameter of the model:
  the DOM parser on a whole text (\<open>parseFromString\<close>), the parser and the serializer behind
  \<^verbatim>\<open>DOMUtilities.replaceContentWithXMLContent\<close> and \<^verbatim>\<open>DOMUtilities.getXMLContent\<close>
  (\<open>parseFragment\<close>, \<open>serializeToString\<close>), the constructor of \<^verbatim>\<open>XmbFile\<close>
  (\<open>newXmbFile\<close>, \<open>None\<close> when it throws), the methods \<^verbatim>\<open>isICUMessage\<close> and
  \<^verbatim>\<open>cloneWithSourceAsTarget\<close> of the imported unit, and how a unit counts as untranslated
  or reviewed.
\<close>

record collaborators =
  parseFromString :: "string \<Rightarrow> document"
  parseFragment :: "string \<Rightarrow> xml_node list"
  serializeToString :: "xml_node list \<Rightarrow> string"
  newXmbFile :: "string \<Rightarrow> string \<Rightarrow> string \<Rightarrow> xmb_file option"
  isICUMessage :: "trans_unit \<Rightarrow> string \<Rightarrow> bool"
  cloneWithSourceAsTarget :: "trans_unit \<Rightarrow> bool \<Rightarrow> bool \<Rightarrow> trans_unit"
  isUntranslated :: "xtb_trans_unit \<Rightarrow> bool"
  isReviewed :: "xtb_trans_unit \<Rightarrow> bool"

text \<open>
  Modelled from the spec: \<^verbatim>\<open>DOMUtilities.replaceContentWithXMLContent\<close> and
  \<^verbatim>\<open>DOMUtilities.getXMLContent\<close> are not among the source files. The first replaces the
  child content of an element by the parsed text, the second serializes the child content.
\<close>

definition replaceContentWithXMLContent :: "collaborators \<Rightarrow> xml_node \<Rightarrow> string \<Rightarrow> xml_node" where
  "replaceContentWithXMLContent c e pcdata =
     (case e of Element n as cs \<Rightarrow> Element n as (parseFragment c pcdata) | TextNode s \<Rightarrow> TextNode s)"

definition getXMLContent :: "collaborators \<Rightarrow> xml_node \<Rightarrow> string" where
  "getXMLContent c e =
     (case e of Element n as cs \<Rightarrow> serializeToString c cs | TextNode s \<Rightarrow> [])"

text \<open>
  Modelled from the spec: \<^verbatim>\<open>XtbTransUnit.targetContent\<close> is not among the source files.
  The target content of an xtb unit is the XML content of its \<^verbatim>\<open>translation\<close> element.
\<close>

definition targetContent :: "collaborators \<Rightarrow> xtb_trans_unit \<Rightarrow> string" where
  "targetContent c u = getXMLContent c (unit_element u)"

section \<open>The xtb file\<close>

text \<open>
  The fields of an \<^verbatim>\<open>XtbFile\<close>. \<open>f_transUnits\<close> is \<open>None\<close> until the units are
  initialized. \<open>f_targetPraefix\<close> and \<open>f_targetSuffix\<close> are what
  \<^verbatim>\<open>getNewTransUnitTargetPraefix()\<close> and \<^verbatim>\<open>getNewTransUnitTargetSuffix()\<close> return.
\<close>

record xtb_file =
  f_filename :: string
  f_encoding :: string
  f_parsedDocument :: document
  f_warnings :: "string list"
  f_numberOfTransUnitsWithMissingId :: nat
  f_numberOfUntranslatedTransUnits :: nat
  f_numberOfReviewedTransUnits :: nat
  f_transUnits :: "xtb_trans_unit list option"
  f_masterFile :: "xmb_file option"
  f_targetPraefix :: string
  f_targetSuffix :: string

record master_content =
  xmlContent :: string
  path :: string
  encoding :: string

definition unitsOf :: "xtb_file \<Rightarrow> xtb_trans_unit list" where
  "unitsOf d = (case f_transUnits d of None \<Rightarrow> [] | Some us \<Rightarrow> us)"

text \<open>
  Modelled from the spec: \<^verbatim>\<open>parseContent\<close> of the abstract file class is not among the
  source files. It parses the text into the tree and keeps path and encoding.
\<close>

definition parseContent :: "collaborators \<Rightarrow> string \<Rightarrow> string \<Rightarrow> string \<Rightarrow> xtb_file \<Rightarrow> xtb_file" where
  "parseContent c xmlString p enc d =
     d\<lparr>f_filename := p, f_encoding := enc, f_parsedDocument := parseFromString c xmlString\<rparr>"

text \<open>
  The loop of \<^verbatim>\<open>initializeTransUnits\<close> over the \<^verbatim>\<open>translation\<close> elements, with the
  warnings and the units built so far.
\<close>

fun initializeTransUnits_loop ::
  "xmb_file option \<Rightarrow> string \<Rightarrow> xml_node list \<Rightarrow> string list \<times> xtb_trans_unit list
     \<Rightarrow> string list \<times> xtb_trans_unit list" where
  "initializeTransUnits_loop master fname [] (ws, us) = (ws, us)"
| "initializeTransUnits_loop master fname (msg # rest) (ws, us) =
     (let i = getAttribute msg ''id'';
          ws' = (if i = [] then ws @ [missing_id_warning fname] else ws);
          masterUnit = (case master of None \<Rightarrow> None | Some m \<Rightarrow> xmb_transUnitWithId m i)
      in initializeTransUnits_loop master fname rest
           (ws', us @ [\<lparr>unit_element = msg, unit_id = i, sourceTransUnitFromMaster = masterUnit\<rparr>]))"

definition initializeTransUnits :: "xtb_file \<Rightarrow> xtb_file" where
  "initializeTransUnits d =
     (let transUnitsInFile = getElementsByTagName (f_parsedDocument d) ''translation'';
          (ws, us) = initializeTransUnits_loop (f_masterFile d) (f_filename d) transUnitsInFile
                       (f_warnings d, [])
      in d\<lparr>f_warnings := ws, f_transUnits := Some us\<rparr>)"

text \<open>
  Modelled from the spec: \<^verbatim>\<open>countNumbers\<close>, \<^verbatim>\<open>lazyInitializeTransUnits\<close> and the
  accessors of the abstract file class are not among the source files. The counters are
  derived from the live unit list; the units are built on the first read and every read
  goes through that initialization, so it returns the value together with the file.
\<close>

definition countNumbers :: "collaborators \<Rightarrow> xtb_file \<Rightarrow> xtb_file" where
  "countNumbers c d =
     d\<lparr>f_numberOfTransUnitsWithMissingId := length (filter (\<lambda>u. unit_id u = []) (unitsOf d)),
       f_numberOfUntranslatedTransUnits := length (filter (isUntranslated c) (unitsOf d)),
       f_numberOfReviewedTransUnits := length (filter (isReviewed c) (unitsOf d))\<rparr>"

definition lazyInitializeTransUnits :: "collaborators \<Rightarrow> xtb_file \<Rightarrow> xtb_file" where
  "lazyInitializeTransUnits c d =
     (case f_transUnits d of None \<Rightarrow> countNumbers c (initializeTransUnits d) | Some us \<Rightarrow> d)"

definition numberOfTransUnits :: "collaborators \<Rightarrow> xtb_file \<Rightarrow> nat \<times> xtb_file" where
  "numberOfTransUnits c d =
     (let d' = lazyInitializeTransUnits c d in (length (unitsOf d'), d'))"

definition numberOfTransUnitsWithMissingId :: "collaborators \<Rightarrow> xtb_file \<Rightarrow> nat \<times> xtb_file" where
  "numberOfTransUnitsWithMissingId c d =
     (let d' = lazyInitializeTransUnits c d in (f_numberOfTransUnitsWithMissingId d', d'))"

definition numberOfUntranslatedTransUnits :: "collaborators \<Rightarrow> xtb_file \<Rightarrow> nat \<times> xtb_file" where
  "numberOfUntranslatedTransUnits c d =
     (let d' = lazyInitializeTransUnits c d in (f_numberOfUntranslatedTransUnits d', d'))"

definition numberOfReviewedTransUnits :: "collaborators \<Rightarrow> xtb_file \<Rightarrow> nat \<times> xtb_file" where
  "numberOfReviewedTransUnits c d =
     (let d' = lazyInitializeTransUnits c d in (f_numberOfReviewedTransUnits d', d'))"

definition warnings :: "collaborators \<Rightarrow> xtb_file \<Rightarrow> string list \<times> xtb_file" where
  "warnings c d = (let d' = lazyInitializeTransUnits c d in (f_warnings d', d'))"

definition allTransUnits :: "collaborators \<Rightarrow> xtb_file \<Rightarrow> xtb_trans_unit list \<times> xtb_file" where
  "allTransUnits c d = (let d' = lazyInitializeTransUnits c d in (unitsOf d', d'))"

definition transUnitWithId :: "collaborators \<Rightarrow> string \<Rightarrow> xtb_file \<Rightarrow> xtb_trans_unit option \<times> xtb_file" where
  "transUnitWithId c i d =
     (let d' = lazyInitializeTransUnits c d in (find (\<lambda>u. unit_id u = i) (unitsOf d'), d'))"

text \<open>
  Modelled from the spec: the decoration prefix and suffix for new units are configured on
  the file; their getters and setters in the abstract file class are not among the source
  files.
\<close>

definition getNewTransUnitTargetPraefix :: "xtb_file \<Rightarrow> string" where
  "getNewTransUnitTargetPraefix d = f_targetPraefix d"

definition getNewTransUnitTargetSuffix :: "xtb_file \<Rightarrow> string" where
  "getNewTransUnitTargetSuffix d = f_targetSuffix d"

definition setNewTransUnitTargetPraefix :: "string \<Rightarrow> xtb_file \<Rightarrow> xtb_file" where
  "setNewTransUnitTargetPraefix p d = d\<lparr>f_targetPraefix := p\<rparr>"

definition setNewTransUnitTargetSuffix :: "string \<Rightarrow> xtb_file \<Rightarrow> xtb_file" where
  "setNewTransUnitTargetSuffix s d = d\<lparr>f_targetSuffix := s\<rparr>"

text \<open>
  \<^verbatim>\<open>initializeFromContent\<close>. A throw is the result \<open>Inl\<close>. Whatever is thrown inside
  the \<^verbatim>\<open>try\<close> block is caught and thrown again as the error that names the master's path.
\<close>

definition initializeFromContent ::
  "collaborators \<Rightarrow> string \<Rightarrow> string \<Rightarrow> string \<Rightarrow> master_content option \<Rightarrow> xtb_file
     \<Rightarrow> error + xtb_file" where
  "initializeFromContent c xmlString p enc optionalMaster d =
     (let d1 = parseContent c xmlString p enc d in
      if length (getElementsByTagName (f_parsedDocument d1) ''translationbundle'') \<noteq> 1
      then Inl (no_xtb_file_error p)
      else
        (case optionalMaster of
           None \<Rightarrow> Inr d1
         | Some om \<Rightarrow>
             (case newXmbFile c (xmlContent om) (path om) (encoding om) of
                None \<Rightarrow> Inl (no_xmb_file_error (path om))
              | Some master \<Rightarrow>
                  (let d2 = d1\<lparr>f_masterFile := Some master\<rparr>;
                       numberInMaster = xmb_numberOfTransUnits master;
                       (myNumber, d3) = numberOfTransUnits c d2
                   in if numberInMaster \<noteq> myNumber
                      then Inr (d3\<lparr>f_warnings :=
                                 f_warnings d3 @ [master_mismatch_warning numberInMaster myNumber]\<rparr>)
                      else Inr d3))))"

text \<open>The constructor: no warnings, no unit without id counted, then \<^verbatim>\<open>initializeFromContent\<close>.\<close>

definition emptyFile :: xtb_file where
  "emptyFile =
     \<lparr>f_filename = [], f_encoding = [], f_parsedDocument = [], f_warnings = [],
      f_numberOfTransUnitsWithMissingId = 0, f_numberOfUntranslatedTransUnits = 0,
      f_numberOfReviewedTransUnits = 0, f_transUnits = None, f_masterFile = None,
      f_targetPraefix = [], f_targetSuffix = []\<rparr>"

definition new_XtbFile ::
  "collaborators \<Rightarrow> string \<Rightarrow> string \<Rightarrow> string \<Rightarrow> master_content option \<Rightarrow> error + xtb_file" where
  "new_XtbFile c xmlString p enc optionalMaster =
     initializeFromContent c xmlString p enc optionalMaster emptyFile"

definition sourceLanguage :: "xtb_file \<Rightarrow> string option" where
  "sourceLanguage d =
     (case f_masterFile d of Some m \<Rightarrow> xmb_sourceLanguage m | None \<Rightarrow> None)"

definition setSourceLanguage :: "string \<Rightarrow> xtb_file \<Rightarrow> xtb_file" where
  "setSourceLanguage language d = d"

definition targetLanguage :: "xtb_file \<Rightarrow> string option" where
  "targetLanguage d =
     (case getFirstElementByTagName (f_parsedDocument d) ''translationbundle'' of
        Some translationbundleElem \<Rightarrow> Some (getAttribute translationbundleElem ''lang'')
      | None \<Rightarrow> None)"

definition setTargetLanguage :: "string \<Rightarrow> xtb_file \<Rightarrow> xtb_file" where
  "setTargetLanguage language d =
     (case getFirstElementByTagName (f_parsedDocument d) ''translationbundle'' of
        Some translationbundleElem \<Rightarrow>
          d\<lparr>f_parsedDocument := modifyFirstElementByTagName (f_parsedDocument d)
                ''translationbundle'' (setAttribute ''lang'' language)\<rparr>
      | None \<Rightarrow> d)"

text \<open>
  \<^verbatim>\<open>importNewTransUnit\<close>. The result is what the call returns (\<open>Inl\<close> the thrown error,
  \<open>Inr None\<close> for null, \<open>Inr (Some u)\<close> for the new unit) and the file after the call.
\<close>

definition importNewTransUnit ::
  "collaborators \<Rightarrow> trans_unit \<Rightarrow> bool \<Rightarrow> bool \<Rightarrow> xtb_file
     \<Rightarrow> (error + xtb_trans_unit option) \<times> xtb_file" where
  "importNewTransUnit c transUnit isDefaultLang copyContent d =
     (case transUnitWithId c (tu_id transUnit) d of
        (Some existing, d1) \<Rightarrow> (Inl (duplicate_id_error (tu_id transUnit)), d1)
      | (None, d1) \<Rightarrow>
          (let newTu = cloneWithSourceAsTarget c transUnit isDefaultLang copyContent in
           case getFirstElementByTagName (f_parsedDocument d1) ''translationbundle'' of
             Some translationbundleElem \<Rightarrow>
               (let translationElement0 = Element ''translation'' [] [];
                    translationElement1 = setAttribute ''id'' (tu_id transUnit) translationElement0;
                    newContent0 = tu_sourceContent transUnit;
                    newContent =
                      (if \<not> isICUMessage c transUnit newContent0
                       then getNewTransUnitTargetPraefix d1 @ newContent0 @ getNewTransUnitTargetSuffix d1
                       else newContent0);
                    translationElement = replaceContentWithXMLContent c translationElement1 newContent;
                    newTransUnit = \<lparr>unit_element = translationElement, unit_id = tu_id transUnit,
                                    sourceTransUnitFromMaster = Some newTu\<rparr>;
                    d2 = d1\<lparr>f_parsedDocument := modifyFirstElementByTagName (f_parsedDocument d1)
                              ''translationbundle'' (appendChild translationElement)\<rparr>;
                    d3 = lazyInitializeTransUnits c d2;
                    d4 = d3\<lparr>f_transUnits := Some (unitsOf d3 @ [newTransUnit])\<rparr>;
                    d5 = countNumbers c d4
                in (Inr (Some newTransUnit), d5))
           | None \<Rightarrow> (Inr None, d1)))"

section \<open>Removing a unit\<close>

text \<open>
  Modelled from the spec: \<^verbatim>\<open>removeTransUnitWithId\<close> of the abstract file class is not
  among the source files. It removes the matching unit if present: the first
  \<^verbatim>\<open>translation\<close> element with the id leaves the tree, the first unit with the id leaves
  the unit list, and the counters are derived again. Without a matching unit nothing
  changes but the units being built by the lookup.
\<close>

fun isTranslationWithId :: "string \<Rightarrow> xml_node \<Rightarrow> bool" where
  "isTranslationWithId i (Element n as cs) =
     (n = ''translation'' \<and> getAttribute (Element n as cs) ''id'' = i)"
| "isTranslationWithId i (TextNode s) = False"

fun removeFirstBelow :: "(xml_node \<Rightarrow> bool) \<Rightarrow> xml_node \<Rightarrow> xml_node option"
  and removeFirstIn :: "(xml_node \<Rightarrow> bool) \<Rightarrow> xml_node list \<Rightarrow> xml_node list option" where
  "removeFirstBelow P (TextNode s) = None"
| "removeFirstBelow P (Element n as cs) =
     (case removeFirstIn P cs of None \<Rightarrow> None | Some cs' \<Rightarrow> Some (Element n as cs'))"
| "removeFirstIn P [] = None"
| "removeFirstIn P (c # cs) =
     (if P c then Some cs
      else (case removeFirstBelow P c of
              Some c' \<Rightarrow> Some (c' # cs)
            | None \<Rightarrow> (case removeFirstIn P cs of None \<Rightarrow> None | Some cs' \<Rightarrow> Some (c # cs'))))"

fun removeFirstUnit :: "string \<Rightarrow> xtb_trans_unit list \<Rightarrow> xtb_trans_unit list" where
  "removeFirstUnit i [] = []"
| "removeFirstUnit i (u # us) = (if unit_id u = i then us else u # removeFirstUnit i us)"

definition removeTransUnitWithId :: "collaborators \<Rightarrow> string \<Rightarrow> xtb_file \<Rightarrow> xtb_file" where
  "removeTransUnitWithId c i d =
     (case transUnitWithId c i d of
        (None, d1) \<Rightarrow> d1
      | (Some tu, d1) \<Rightarrow>
          countNumbers c
            (d1\<lparr>f_parsedDocument :=
                   (case removeFirstIn (isTranslationWithId i) (f_parsedDocument d1) of
                      None \<Rightarrow> f_parsedDocument d1
                    | Some doc' \<Rightarrow> doc'),
                 f_transUnits := Some (removeFirstUnit i (unitsOf d1))\<rparr>))"

section \<open>States that the operations of the file reach\<close>

text \<open>
  A file is reachable when the constructor returned it, or when one of the operations of
  this class was called on a reachable file: an import (whatever it returned), a change of
  a language or of the decoration, or a read (which builds the units when they are not yet
  built). The removal of a unit is not among them.
\<close>

inductive reachable :: "collaborators \<Rightarrow> xtb_file \<Rightarrow> bool" for c :: collaborators where
  constructed: "new_XtbFile c xmlString p enc optionalMaster = Inr d \<Longrightarrow> reachable c d"
| imported: "reachable c d \<Longrightarrow> reachable c (snd (importNewTransUnit c u isDefaultLang copyContent d))"
| target_language_set: "reachable c d \<Longrightarrow> reachable c (setTargetLanguage language d)"
| source_language_set: "reachable c d \<Longrightarrow> reachable c (setSourceLanguage language d)"
| praefix_set: "reachable c d \<Longrightarrow> reachable c (setNewTransUnitTargetPraefix s d)"
| suffix_set: "reachable c d \<Longrightarrow> reachable c (setNewTransUnitTargetSuffix s d)"
| units_read: "reachable c d \<Longrightarrow> reachable c (lazyInitializeTransUnits c d)"

section \<open>What the unit initialization computes\<close>

text \<open>
  The unit that \<^verbatim>\<open>initializeTransUnits\<close> builds for one \<^verbatim>\<open>translation\<close> element, and
  the elements that have no id (an absent and an empty attribute are both falsy).
\<close>

definition unitOfElement :: "xmb_file option \<Rightarrow> xml_node \<Rightarrow> xtb_trans_unit" where
  "unitOfElement master msg =
     \<lparr>unit_element = msg, unit_id = getAttribute msg ''id'',
      sourceTransUnitFromMaster =
        (case master of None \<Rightarrow> None | Some m \<Rightarrow> xmb_transUnitWithId m (getAttribute msg ''id''))\<rparr>"

definition translationElements :: "collaborators \<Rightarrow> string \<Rightarrow> xml_node list" where
  "translationElements c xmlString = getElementsByTagName (parseFromString c xmlString) ''translation''"

definition elementsWithoutId :: "xml_node list \<Rightarrow> xml_node list" where
  "elementsWithoutId es = filter (\<lambda>msg. getAttribute msg ''id'' = []) es"

section \<open>Example files\<close>

text \<open>
  Example texts with the trees that the DOM parser builds for them, a master, and
  collaborators that stand for the real ones on these examples: the parser knows the
  example texts (anything else has no element), content is text without markup, a message
  is an ICU message when it starts with a brace, and a unit of the master is its own clone.
\<close>

definition ex_text_empty :: string where
  "ex_text_empty = ''<translationbundle lang=\"en\"></translationbundle>''"

definition ex_doc_empty :: document where
  "ex_doc_empty = [Element ''translationbundle'' [(''lang'', ''en'')] []]"

definition ex_text_two :: string where
  "ex_text_two = ''<translationbundle lang=\"en\"><translation id=\"a\">A</translation><translation>B</translation></translationbundle>''"

definition ex_doc_two :: document where
  "ex_doc_two =
     [Element ''translationbundle'' [(''lang'', ''en'')]
        [Element ''translation'' [(''id'', ''a'')] [TextNode ''A''],
         Element ''translation'' [] [TextNode ''B'']]]"

definition ex_text_one :: string where
  "ex_text_one = ''<translationbundle lang=\"en\"><translation id=\"a\">A</translation></translationbundle>''"

definition ex_doc_one :: document where
  "ex_doc_one =
     [Element ''translationbundle'' [(''lang'', ''en'')]
        [Element ''translation'' [(''id'', ''a'')] [TextNode ''A'']]]"

text \<open>A text whose \<^verbatim>\<open>translationbundle\<close> element lies inside a \<^verbatim>\<open>translation\<close> element.\<close>

definition ex_text_nested :: string where
  "ex_text_nested = ''<translation id=\"x\"><translationbundle lang=\"en\"></translationbundle></translation>''"

definition ex_doc_nested :: document where
  "ex_doc_nested =
     [Element ''translation'' [(''id'', ''x'')]
        [Element ''translationbundle'' [(''lang'', ''en'')] []]]"

definition ex_ids :: "string list" where
  "ex_ids = [''t01'', ''t02'', ''t03'', ''t04'', ''t05'', ''t06'', ''t07'', ''t08'', ''t09'', ''t10'']"

definition ex_text_eleven :: string where
  "ex_text_eleven =
     ''<translationbundle lang=\"en\">''
       @ concat (map (\<lambda>i. ''<translation id=\"'' @ i @ ''\">t</translation>'') ex_ids)
       @ ''<translation>t</translation></translationbundle>''"

definition ex_doc_eleven :: document where
  "ex_doc_eleven =
     [Element ''translationbundle'' [(''lang'', ''en'')]
        (map (\<lambda>i. Element ''translation'' [(''id'', i)] [TextNode ''t'']) ex_ids
           @ [Element ''translation'' [] [TextNode ''t'']])]"

definition ex_master_text :: string where
  "ex_master_text = ''<messagebundle><msg id=\"a\">A source</msg></messagebundle>''"

definition ex_master :: xmb_file where
  "ex_master =
     \<lparr>xmb_transUnits = [\<lparr>tu_id = ''a'', tu_sourceContent = ''A source''\<rparr>],
      xmb_sourceLanguage = Some ''de''\<rparr>"

definition ex_master_content :: master_content where
  "ex_master_content = \<lparr>xmlContent = ex_master_text, path = ''master.de.xmb'', encoding = ''UTF-8''\<rparr>"

definition ex_no_master_content :: master_content where
  "ex_no_master_content = \<lparr>xmlContent = ''this is no xmb'', path = ''wrong.txt'', encoding = ''UTF-8''\<rparr>"

fun ex_serialize :: "xml_node list \<Rightarrow> string" where
  "ex_serialize [] = []"
| "ex_serialize (TextNode s # ns) = s @ ex_serialize ns"
| "ex_serialize (Element n as cs # ns) = ex_serialize ns"

definition ex_collaborators :: collaborators where
  "ex_collaborators =
     \<lparr>parseFromString = (\<lambda>s. if s = ex_text_empty then ex_doc_empty
                              else if s = ex_text_one then ex_doc_one
                              else if s = ex_text_two then ex_doc_two
                              else if s = ex_text_eleven then ex_doc_eleven
                              else if s = ex_text_nested then ex_doc_nested
                              else []),
      parseFragment = (\<lambda>s. if s = [] then [] else [TextNode s]),
      serializeToString = ex_serialize,
      newXmbFile = (\<lambda>s p enc. if s = ex_master_text then Some ex_master else None),
      isICUMessage = (\<lambda>u s. take 1 s = ''{''),
      cloneWithSourceAsTarget = (\<lambda>u isDefaultLang copyContent. u),
      isUntranslated = (\<lambda>u. True),
      isReviewed = (\<lambda>u. False)\<rparr>"

definition ex_unit :: trans_unit where
  "ex_unit = \<lparr>tu_id = ''unittomerge'', tu_sourceContent = ''Test for merging units''\<rparr>"

definition ex_icu_unit :: trans_unit where
  "ex_icu_unit = \<lparr>tu_id = ''icu'', tu_sourceContent = ''{n, plural, =0 {none} other {some}}''\<rparr>"

definition ex_unit_a :: trans_unit where
  "ex_unit_a = \<lparr>tu_id = ''a'', tu_sourceContent = ''A source''\<rparr>"

text \<open>
  The files that the constructor returns for \<open>ex_text_empty\<close> and \<open>ex_text_nested\<close>
  without a master, and for \<open>ex_text_one\<close> and \<open>ex_text_two\<close> with the master
  \<open>ex_master_content\<close>.
\<close>

definition ex_file_empty :: xtb_file where
  "ex_file_empty =
     \<lparr>f_filename = ''messages.en.xtb'', f_encoding = ''UTF-8'', f_parsedDocument = ex_doc_empty,
      f_warnings = [], f_numberOfTransUnitsWithMissingId = 0,
      f_numberOfUntranslatedTransUnits = 0, f_numberOfReviewedTransUnits = 0,
      f_transUnits = None, f_masterFile = None, f_targetPraefix = [], f_targetSuffix = []\<rparr>"

definition ex_file_one :: xtb_file where
  "ex_file_one =
     \<lparr>f_filename = ''messages.en.xtb'', f_encoding = ''UTF-8'', f_parsedDocument = ex_doc_one,
      f_warnings = [], f_numberOfTransUnitsWithMissingId = 0,
      f_numberOfUntranslatedTransUnits = 1, f_numberOfReviewedTransUnits = 0,
      f_transUnits =
        Some [\<lparr>unit_element = Element ''translation'' [(''id'', ''a'')] [TextNode ''A''],
               unit_id = ''a'', sourceTransUnitFromMaster = Some ex_unit_a\<rparr>],
      f_masterFile = Some ex_master, f_targetPraefix = [], f_targetSuffix = []\<rparr>"

definition ex_file_nested :: xtb_file where
  "ex_file_nested =
     \<lparr>f_filename = ''messages.en.xtb'', f_encoding = ''UTF-8'', f_parsedDocument = ex_doc_nested,
      f_warnings = [], f_numberOfTransUnitsWithMissingId = 0,
      f_numberOfUntranslatedTransUnits = 0, f_numberOfReviewedTransUnits = 0,
      f_transUnits = None, f_masterFile = None, f_targetPraefix = [], f_targetSuffix = []\<rparr>"

definition ex_file_two :: xtb_file where
  "ex_file_two =
     \<lparr>f_filename = ''messages.en.xtb'', f_encoding = ''UTF-8'', f_parsedDocument = ex_doc_two,
      f_warnings =
        [''oops, msg without \"id\" found in master, please check file messages.en.xtb'',
         ''1 trans units found in master, but this file has 2. Check if it is the correct master''],
      f_numberOfTransUnitsWithMissingId = 1,
      f_numberOfUntranslatedTransUnits = 2, f_numberOfReviewedTransUnits = 0,
      f_transUnits =
        Some [\<lparr>unit_element = Element ''translation'' [(''id'', ''a'')] [TextNode ''A''],
               unit_id = ''a'', sourceTransUnitFromMaster = Some ex_unit_a\<rparr>,
              \<lparr>unit_element = Element ''translation'' [] [TextNode ''B''],
               unit_id = [], sourceTransUnitFromMaster = None\<rparr>],
      f_masterFile = Some ex_master, f_targetPraefix = [], f_targetSuffix = []\<rparr>"

section \<open>What a caller sees of an import\<close>

text \<open>
  The target content of the unit that an import stored: \<open>None\<close> when the call threw or
  returned null.
\<close>

definition importedTargetContent ::
  "collaborators \<Rightarrow> trans_unit \<Rightarrow> bool \<Rightarrow> bool \<Rightarrow> xtb_file \<Rightarrow> string option" where
  "importedTargetContent c u isDefaultLang copyContent d =
     (case fst (importNewTransUnit c u isDefaultLang copyContent d) of
        Inl e \<Rightarrow> None
      | Inr None \<Rightarrow> None
      | Inr (Some newTransUnit) \<Rightarrow> Some (targetContent c newTransUnit))"

section \<open>Facts about the tree and the unit initialization\<close>

lemmas op_defs = getElementsByTagName_def getFirstElementByTagName_def modifyFirstElementByTagName_def
  xmb_numberOfTransUnits_def xmb_transUnitWithId_def replaceContentWithXMLContent_def getXMLContent_def targetContent_def
  unitsOf_def parseContent_def initializeTransUnits_def countNumbers_def lazyInitializeTransUnits_def numberOfTransUnits_def
  numberOfTransUnitsWithMissingId_def warnings_def allTransUnits_def transUnitWithId_def
  getNewTransUnitTargetPraefix_def getNewTransUnitTargetSuffix_def setNewTransUnitTargetPraefix_def setNewTransUnitTargetSuffix_def
  initializeFromContent_def new_XtbFile_def emptyFile_def sourceLanguage_def setSourceLanguage_def targetLanguage_def setTargetLanguage_def
  importNewTransUnit_def unitOfElement_def translationElements_def elementsWithoutId_def

lemma modifyFirst_None_iff:
  "(modifyFirstOf t f n = None) = (elementsOf t n = [])"
  "(modifyFirstIn t f ns = None) = (elementsIn t ns = [])"
  by (induction t f n and t f ns rule: modifyFirstOf_modifyFirstIn.induct)
     (auto split: option.splits)

lemma modifyFirst_keeps_element:
  "(\<And>n as cs. \<exists>as' cs'. f (Element n as cs) = Element n as' cs') \<Longrightarrow>
     modifyFirstOf t f n = Some n' \<Longrightarrow> elementsOf t n' \<noteq> []"
  "(\<And>n as cs. \<exists>as' cs'. f (Element n as cs) = Element n as' cs') \<Longrightarrow>
     modifyFirstIn t f ns = Some ns' \<Longrightarrow> elementsIn t ns' \<noteq> []"
proof (induction t f n and t f ns arbitrary: n' and ns' rule: modifyFirstOf_modifyFirstIn.induct)
  case (1 t f s)
  then show ?case by simp
next
  case (2 t f n as cs)
  show ?case
  proof (cases "n = t")
    case True
    obtain as' cs' where "f (Element n as cs) = Element n as' cs'"
      using "2.prems"(1) by blast
    with True "2.prems"(2) show ?thesis by auto
  next
    case False
    with "2.prems"(2) obtain cs' where "modifyFirstIn t f cs = Some cs'" and "n' = Element n as cs'"
      by (auto split: option.splits)
    with False "2.IH" "2.prems"(1) show ?thesis by auto
  qed
next
  case (3 t f)
  then show ?case by simp
next
  case (4 t f c cs)
  from "4.prems"(2) show ?case
  proof (cases "modifyFirstOf t f c")
    case None
    with "4.prems"(2) obtain cs' where "modifyFirstIn t f cs = Some cs'" and "ns' = c # cs'"
      by (auto split: option.splits)
    with None "4.IH"(2) "4.prems"(1) show ?thesis by auto
  next
    case (Some c')
    with "4.prems"(2) have "ns' = c' # cs" by simp
    with Some "4.IH"(1) "4.prems"(1) show ?thesis by auto
  qed
qed

lemma appendChild_keeps: "\<exists>as' cs'. appendChild new (Element n as cs) = Element n as' cs'"
  by simp

lemma setAttribute_keeps: "\<exists>as' cs'. setAttribute a v (Element n as cs) = Element n as' cs'"
  by simp

lemma modifyFirstElementByTagName_keeps_element:
  assumes "\<And>n as cs. \<exists>as' cs'. f (Element n as cs) = Element n as' cs'"
    and "getElementsByTagName doc t \<noteq> []"
  shows "getElementsByTagName (modifyFirstElementByTagName doc t f) t \<noteq> []"
proof (cases "modifyFirstIn t f doc")
  case None
  with assms(2) show ?thesis
    by (simp add: modifyFirstElementByTagName_def getElementsByTagName_def)
next
  case (Some doc')
  with modifyFirst_keeps_element(2) [of f t doc doc', OF assms(1)] show ?thesis
    by (simp add: modifyFirstElementByTagName_def getElementsByTagName_def)
qed

lemma elementsOf_are_elements:
  "e \<in> set (elementsOf t n) \<Longrightarrow> \<exists>as cs. e = Element t as cs"
  "e \<in> set (elementsIn t ns) \<Longrightarrow> \<exists>as cs. e = Element t as cs"
  by (induction t n and t ns rule: elementsOf_elementsIn.induct) (auto split: if_splits)

lemma modifyFirst_first:
  "(\<And>n as cs. \<exists>as' cs'. f (Element n as cs) = Element n as' cs') \<Longrightarrow>
     modifyFirstOf t f n = Some n' \<Longrightarrow>
     \<exists>e es es'. elementsOf t n = e # es \<and> elementsOf t n' = f e # es'"
  "(\<And>n as cs. \<exists>as' cs'. f (Element n as cs) = Element n as' cs') \<Longrightarrow>
     modifyFirstIn t f ns = Some ns' \<Longrightarrow>
     \<exists>e es es'. elementsIn t ns = e # es \<and> elementsIn t ns' = f e # es'"
proof (induction t f n and t f ns arbitrary: n' and ns' rule: modifyFirstOf_modifyFirstIn.induct)
  case (1 t f s)
  then show ?case by simp
next
  case (2 t f n as cs)
  show ?case
  proof (cases "n = t")
    case True
    obtain as' cs' where "f (Element n as cs) = Element n as' cs'"
      using "2.prems"(1) by blast
    with True "2.prems"(2) show ?thesis by auto
  next
    case False
    with "2.prems"(2) obtain cs' where "modifyFirstIn t f cs = Some cs'" and "n' = Element n as cs'"
      by (auto split: option.splits)
    with False "2.IH" "2.prems"(1) show ?thesis by auto
  qed
next
  case (3 t f)
  then show ?case by simp
next
  case (4 t f c cs)
  show ?case
  proof (cases "modifyFirstOf t f c")
    case None
    with "4.prems"(2) obtain cs' where cs': "modifyFirstIn t f cs = Some cs'" and "ns' = c # cs'"
      by (auto split: option.splits)
    moreover have "elementsOf t c = []"
      using None by (simp add: modifyFirst_None_iff)
    moreover obtain e es es' where "elementsIn t cs = e # es" "elementsIn t cs' = f e # es'"
      using "4.IH"(2) [OF None "4.prems"(1) cs'] by blast
    ultimately show ?thesis by simp
  next
    case (Some c')
    with "4.prems"(2) have "ns' = c' # cs" by simp
    moreover obtain e es es' where "elementsOf t c = e # es" "elementsOf t c' = f e # es'"
      using "4.IH"(1) [OF "4.prems"(1) Some] by blast
    ultimately show ?thesis by simp
  qed
qed

lemma appendChild_to_first_element:
  assumes "getFirstElementByTagName doc t = Some e"
  shows "getFirstElementByTagName (modifyFirstElementByTagName doc t (appendChild new)) t =
           Some (Element t (attributes e) (childNodes e @ [new]))"
proof -
  obtain es where es: "elementsIn t doc = e # es"
    using assms
    by (auto simp add: getFirstElementByTagName_def getElementsByTagName_def split: list.splits)
  then have "e \<in> set (elementsIn t doc)" by simp
  then obtain as cs where e: "e = Element t as cs"
    using elementsOf_are_elements(2) by blast
  have "modifyFirstIn t (appendChild new) doc \<noteq> None"
    using es by (simp add: modifyFirst_None_iff)
  then obtain doc' where doc': "modifyFirstIn t (appendChild new) doc = Some doc'" by auto
  obtain e0 es0 es' where "elementsIn t doc = e0 # es0"
    "elementsIn t doc' = appendChild new e0 # es'"
    using modifyFirst_first(2) [of "appendChild new" t doc doc', OF appendChild_keeps doc'] by blast
  with es e doc' show ?thesis
    by (simp add: getFirstElementByTagName_def getElementsByTagName_def modifyFirstElementByTagName_def)
qed

lemma initializeTransUnits_loop_eq:
  "initializeTransUnits_loop master fname es (ws, us) =
     (ws @ replicate (length (elementsWithoutId es)) (missing_id_warning fname),
      us @ map (unitOfElement master) es)"
proof (induction es arbitrary: ws us)
  case Nil
  show ?case by (simp add: elementsWithoutId_def)
next
  case (Cons msg rest)
  show ?case
    by (simp add: Cons.IH Let_def elementsWithoutId_def unitOfElement_def replicate_app_Cons_same)
qed

lemma initializeTransUnits_eq:
  "initializeTransUnits d =
     d\<lparr>f_warnings := f_warnings d @ replicate
          (length (elementsWithoutId (getElementsByTagName (f_parsedDocument d) ''translation'')))
          (missing_id_warning (f_filename d)),
       f_transUnits := Some (map (unitOfElement (f_masterFile d))
          (getElementsByTagName (f_parsedDocument d) ''translation''))\<rparr>"
  by (simp add: initializeTransUnits_def initializeTransUnits_loop_eq Let_def)

lemma missing_id_units:
  "length (filter ((\<lambda>u. unit_id u = []) \<circ> unitOfElement m) es) = length (elementsWithoutId es)"
  by (simp add: o_def unitOfElement_def elementsWithoutId_def)

lemma lazyInitializeTransUnits_fresh:
  assumes "f_transUnits d = None"
  shows "unitsOf (lazyInitializeTransUnits c d) =
           map (unitOfElement (f_masterFile d)) (getElementsByTagName (f_parsedDocument d) ''translation'')"
    and "f_warnings (lazyInitializeTransUnits c d) =
           f_warnings d @ replicate
             (length (elementsWithoutId (getElementsByTagName (f_parsedDocument d) ''translation'')))
             (missing_id_warning (f_filename d))"
    and "f_numberOfTransUnitsWithMissingId (lazyInitializeTransUnits c d) =
           length (elementsWithoutId (getElementsByTagName (f_parsedDocument d) ''translation''))"
  using assms
  by (simp_all add: lazyInitializeTransUnits_def countNumbers_def initializeTransUnits_eq unitsOf_def
      missing_id_units)

lemma lazyInitializeTransUnits_frame:
  "f_parsedDocument (lazyInitializeTransUnits c d) = f_parsedDocument d"
  "f_masterFile (lazyInitializeTransUnits c d) = f_masterFile d"
  "f_filename (lazyInitializeTransUnits c d) = f_filename d"
  "f_targetPraefix (lazyInitializeTransUnits c d) = f_targetPraefix d"
  "f_targetSuffix (lazyInitializeTransUnits c d) = f_targetSuffix d"
  "f_transUnits (lazyInitializeTransUnits c d) = Some (unitsOf (lazyInitializeTransUnits c d))"
  by (simp_all add: lazyInitializeTransUnits_def countNumbers_def initializeTransUnits_eq unitsOf_def
      split: option.splits)

lemma lazyInitializeTransUnits_initialized:
  "f_transUnits d = Some us \<Longrightarrow> lazyInitializeTransUnits c d = d"
  by (simp add: lazyInitializeTransUnits_def)

lemma lazyInitializeTransUnits_idem:
  "lazyInitializeTransUnits c (lazyInitializeTransUnits c d) = lazyInitializeTransUnits c d"
  using lazyInitializeTransUnits_frame(6) [of c d]
  by (rule lazyInitializeTransUnits_initialized)


lemma new_XtbFile_no_root:
  "length (getElementsByTagName (parseFromString c x) ''translationbundle'') \<noteq> 1 \<Longrightarrow>
     new_XtbFile c x p enc om = Inl (no_xtb_file_error p)"
  by (simp add: new_XtbFile_def initializeFromContent_def parseContent_def Let_def)

lemma new_XtbFile_no_master:
  "length (getElementsByTagName (parseFromString c x) ''translationbundle'') = 1 \<Longrightarrow>
     new_XtbFile c x p enc None = Inr (parseContent c x p enc emptyFile)"
  by (simp add: new_XtbFile_def initializeFromContent_def parseContent_def Let_def)

lemma new_XtbFile_wrong_master:
  "length (getElementsByTagName (parseFromString c x) ''translationbundle'') = 1 \<Longrightarrow>
   newXmbFile c (xmlContent om) (path om) (encoding om) = None \<Longrightarrow>
     new_XtbFile c x p enc (Some om) = Inl (no_xmb_file_error (path om))"
  by (simp add: new_XtbFile_def initializeFromContent_def parseContent_def Let_def)

lemma new_XtbFile_master:
  assumes "length (getElementsByTagName (parseFromString c x) ''translationbundle'') = 1"
    and "newXmbFile c (xmlContent om) (path om) (encoding om) = Some m"
  shows "\<exists>d. new_XtbFile c x p enc (Some om) = Inr d
           \<and> f_transUnits d = Some (map (unitOfElement (Some m)) (translationElements c x))
           \<and> f_masterFile d = Some m
           \<and> f_parsedDocument d = parseFromString c x
           \<and> f_numberOfTransUnitsWithMissingId d = length (elementsWithoutId (translationElements c x))
           \<and> f_warnings d =
               replicate (length (elementsWithoutId (translationElements c x))) (missing_id_warning p)
                 @ (if xmb_numberOfTransUnits m \<noteq> length (translationElements c x)
                    then [master_mismatch_warning (xmb_numberOfTransUnits m)
                            (length (translationElements c x))]
                    else [])"
proof -
  define d2 where "d2 = (parseContent c x p enc emptyFile)\<lparr>f_masterFile := Some m\<rparr>"
  have none: "f_transUnits d2 = None"
    by (simp add: d2_def parseContent_def emptyFile_def)
  have fields: "f_masterFile d2 = Some m" "f_parsedDocument d2 = parseFromString c x"
    "f_filename d2 = p" "f_warnings d2 = []"
    by (simp_all add: d2_def parseContent_def emptyFile_def)
  define d3 where "d3 = lazyInitializeTransUnits c d2"
  have units: "unitsOf d3 = map (unitOfElement (Some m)) (translationElements c x)"
    using lazyInitializeTransUnits_fresh(1) [OF none, of c]
    by (simp add: d3_def fields translationElements_def)
  have ws: "f_warnings d3 =
      replicate (length (elementsWithoutId (translationElements c x))) (missing_id_warning p)"
    using lazyInitializeTransUnits_fresh(2) [OF none, of c]
    by (simp add: d3_def fields translationElements_def)
  have missing: "f_numberOfTransUnitsWithMissingId d3 = length (elementsWithoutId (translationElements c x))"
    using lazyInitializeTransUnits_fresh(3) [OF none, of c]
    by (simp add: d3_def fields translationElements_def)
  have frame: "f_transUnits d3 = Some (unitsOf d3)" "f_masterFile d3 = Some m"
    "f_parsedDocument d3 = parseFromString c x"
    by (simp_all add: d3_def lazyInitializeTransUnits_frame fields)
  have "new_XtbFile c x p enc (Some om) =
      Inr (if xmb_numberOfTransUnits m \<noteq> length (unitsOf d3)
           then d3\<lparr>f_warnings := f_warnings d3 @
                  [master_mismatch_warning (xmb_numberOfTransUnits m) (length (unitsOf d3))]\<rparr>
           else d3)"
    using assms
    by (simp add: new_XtbFile_def initializeFromContent_def numberOfTransUnits_def Let_def
        d3_def d2_def parseContent_def)
  then show ?thesis
    by (simp add: units ws missing frame)
qed

lemma lazyInitializeTransUnits_of_initialized:
  "f_transUnits d = Some us \<Longrightarrow> unitsOf (lazyInitializeTransUnits c d) = us"
  by (simp add: lazyInitializeTransUnits_def unitsOf_def)

lemma unitsOf_simps:
  "unitsOf (d\<lparr>f_parsedDocument := doc\<rparr>) = unitsOf d"
  "unitsOf (d\<lparr>f_transUnits := Some us\<rparr>) = us"
  "unitsOf (countNumbers c d) = unitsOf d"
  by (simp_all add: unitsOf_def countNumbers_def)

lemma countNumbers_frame:
  "f_parsedDocument (countNumbers c d) = f_parsedDocument d"
  "f_transUnits (countNumbers c d) = f_transUnits d"
  "f_warnings (countNumbers c d) = f_warnings d"
  by (simp_all add: countNumbers_def)

lemma importNewTransUnit_fresh:
  assumes fresh: "fst (transUnitWithId c (tu_id u) d) = None"
    and root: "getElementsByTagName (f_parsedDocument d) ''translationbundle'' \<noteq> []"
  shows "\<exists>nu d'. importNewTransUnit c u isDefaultLang copyContent d = (Inr (Some nu), d')
           \<and> unit_id nu = tu_id u
           \<and> unit_element nu =
               Element ''translation'' [(''id'', tu_id u)]
                 (parseFragment c
                    (if isICUMessage c u (tu_sourceContent u) then tu_sourceContent u
                     else f_targetPraefix d @ tu_sourceContent u @ f_targetSuffix d))
           \<and> sourceTransUnitFromMaster nu = Some (cloneWithSourceAsTarget c u isDefaultLang copyContent)
           \<and> unitsOf d' = unitsOf (lazyInitializeTransUnits c d) @ [nu]
           \<and> f_parsedDocument d' =
               modifyFirstElementByTagName (f_parsedDocument d) ''translationbundle''
                 (appendChild (unit_element nu))"
proof -
  define d1 where "d1 = lazyInitializeTransUnits c d"
  define nu where "nu =
    \<lparr>unit_element = Element ''translation'' [(''id'', tu_id u)]
       (parseFragment c
          (if isICUMessage c u (tu_sourceContent u) then tu_sourceContent u
           else f_targetPraefix d @ tu_sourceContent u @ f_targetSuffix d)),
     unit_id = tu_id u,
     sourceTransUnitFromMaster = Some (cloneWithSourceAsTarget c u isDefaultLang copyContent)\<rparr>"
  define doc' where "doc' = modifyFirstElementByTagName (f_parsedDocument d) ''translationbundle''
                 (appendChild (unit_element nu))"
  have lookup: "transUnitWithId c (tu_id u) d = (None, d1)"
    using fresh by (simp add: transUnitWithId_def d1_def Let_def)
  have frame: "f_parsedDocument d1 = f_parsedDocument d" "f_targetPraefix d1 = f_targetPraefix d"
    "f_targetSuffix d1 = f_targetSuffix d"
    by (simp_all add: d1_def lazyInitializeTransUnits_frame)
  obtain e where first: "getFirstElementByTagName (f_parsedDocument d) ''translationbundle'' = Some e"
    using root
    by (cases "getElementsByTagName (f_parsedDocument d) ''translationbundle''")
       (simp_all add: getFirstElementByTagName_def)
  have again: "lazyInitializeTransUnits c (d1\<lparr>f_parsedDocument := doc\<rparr>) = d1\<lparr>f_parsedDocument := doc\<rparr>"
    for doc
    by (rule lazyInitializeTransUnits_initialized [of _ "unitsOf d1"])
       (simp add: d1_def lazyInitializeTransUnits_frame)
  have "importNewTransUnit c u isDefaultLang copyContent d =
      (Inr (Some nu), countNumbers c (d1\<lparr>f_parsedDocument := doc', f_transUnits := Some (unitsOf d1 @ [nu])\<rparr>))"
    unfolding importNewTransUnit_def lookup
    by (simp add: again frame first Let_def replaceContentWithXMLContent_def unitsOf_simps
        getNewTransUnitTargetPraefix_def getNewTransUnitTargetSuffix_def nu_def doc'_def)
  moreover have "unitsOf (countNumbers c (d1\<lparr>f_parsedDocument := doc', f_transUnits := Some (unitsOf d1 @ [nu])\<rparr>))
      = unitsOf d1 @ [nu]"
    by (simp add: unitsOf_simps)
  moreover have "f_parsedDocument (countNumbers c (d1\<lparr>f_parsedDocument := doc', f_transUnits := Some (unitsOf d1 @ [nu])\<rparr>))
      = doc'"
    by (simp add: countNumbers_frame)
  ultimately show ?thesis
    by (simp add: nu_def d1_def doc'_def)
qed

lemma importNewTransUnit_duplicate:
  assumes "fst (transUnitWithId c (tu_id u) d) \<noteq> None"
  shows "importNewTransUnit c u isDefaultLang copyContent d =
           (Inl (duplicate_id_error (tu_id u)), lazyInitializeTransUnits c d)"
  using assms
  by (auto simp add: importNewTransUnit_def transUnitWithId_def Let_def split: option.splits)

section \<open>The example files, evaluated\<close>

lemmas ex_defs = ex_text_empty_def ex_doc_empty_def ex_text_one_def ex_doc_one_def ex_text_two_def ex_doc_two_def ex_ids_def ex_text_eleven_def ex_doc_eleven_def
  ex_master_text_def ex_master_def ex_master_content_def ex_no_master_content_def ex_collaborators_def ex_unit_def ex_icu_unit_def
  ex_unit_a_def ex_file_empty_def ex_file_one_def ex_file_two_def
  ex_text_nested_def ex_doc_nested_def ex_file_nested_def

lemma show_nat_digit: "n < 10 \<Longrightarrow> show_nat n = [''0123456789'' ! n]"
  by (simp add: show_nat.simps)

lemma ex_constructed:
  "new_XtbFile ex_collaborators ex_text_empty ''messages.en.xtb'' ''UTF-8'' None = Inr ex_file_empty"
  "new_XtbFile ex_collaborators ex_text_one ''messages.en.xtb'' ''UTF-8'' (Some ex_master_content) = Inr ex_file_one"
  "new_XtbFile ex_collaborators ex_text_two ''messages.en.xtb'' ''UTF-8'' (Some ex_master_content) = Inr ex_file_two"
  by (simp_all add: ex_defs op_defs Let_def missing_id_warning_def master_mismatch_warning_def show_nat_digit)

lemma ex_imports:
  "importedTargetContent ex_collaborators ex_unit False False ex_file_empty = Some ''Test for merging units''"
  "importedTargetContent ex_collaborators ex_unit False True
     (setNewTransUnitTargetPraefix ''TODO: '' ex_file_empty) = Some ''TODO: Test for merging units''"
  by (simp_all add: ex_defs op_defs Let_def importedTargetContent_def)

section \<open>Every reachable file has its root element\<close>

lemma importNewTransUnit_parsedDocument_root:
  assumes "getElementsByTagName (f_parsedDocument d) ''translationbundle'' \<noteq> []"
  shows "getElementsByTagName (f_parsedDocument (snd (importNewTransUnit c u isDefaultLang copyContent d)))
           ''translationbundle'' \<noteq> []"
proof (cases "fst (transUnitWithId c (tu_id u) d)")
  case None
  obtain nu d' where "importNewTransUnit c u isDefaultLang copyContent d = (Inr (Some nu), d')"
    and "f_parsedDocument d' = modifyFirstElementByTagName (f_parsedDocument d) ''translationbundle''
           (appendChild (unit_element nu))"
    using importNewTransUnit_fresh [OF None assms] by blast
  then show ?thesis
    using modifyFirstElementByTagName_keeps_element [OF appendChild_keeps assms] by simp
next
  case (Some existing)
  then show ?thesis
    using assms by (simp add: importNewTransUnit_duplicate lazyInitializeTransUnits_frame)
qed

lemma setTargetLanguage_root:
  assumes "getElementsByTagName (f_parsedDocument d) ''translationbundle'' \<noteq> []"
  shows "getElementsByTagName (f_parsedDocument (setTargetLanguage language d)) ''translationbundle'' \<noteq> []"
  using assms modifyFirstElementByTagName_keeps_element [OF setAttribute_keeps assms]
  by (simp add: setTargetLanguage_def split: option.splits)

lemma new_XtbFile_root:
  assumes "new_XtbFile c x p enc om = Inr d"
  shows "length (getElementsByTagName (f_parsedDocument d) ''translationbundle'') = 1"
proof -
  have one: "length (getElementsByTagName (parseFromString c x) ''translationbundle'') = 1"
    using assms new_XtbFile_no_root [of c x p enc om] by auto
  show ?thesis
  proof (cases om)
    case None
    with assms one show ?thesis
      by (auto simp add: new_XtbFile_no_master parseContent_def)
  next
    case (Some m)
    show ?thesis
    proof (cases "newXmbFile c (xmlContent m) (path m) (encoding m)")
      case None
      with assms one Some show ?thesis by (simp add: new_XtbFile_wrong_master)
    next
      case (Some master)
      with new_XtbFile_master [OF one Some, of p enc] assms \<open>om = Some m\<close> one show ?thesis
        by auto
    qed
  qed
qed

lemma reachable_root:
  "reachable c d \<Longrightarrow> getElementsByTagName (f_parsedDocument d) ''translationbundle'' \<noteq> []"
proof (induction rule: reachable.induct)
  case (constructed xmlString p enc optionalMaster d)
  then show ?case using new_XtbFile_root [of c xmlString p enc optionalMaster d] by auto
next
  case (imported d u isDefaultLang copyContent)
  from imported.IH show ?case by (rule importNewTransUnit_parsedDocument_root)
next
  case (target_language_set d language)
  from target_language_set.IH show ?case by (rule setTargetLanguage_root)
next
  case (source_language_set d language)
  then show ?case by (simp add: setSourceLanguage_def)
next
  case (praefix_set d s)
  then show ?case by (simp add: setNewTransUnitTargetPraefix_def)
next
  case (suffix_set d s)
  then show ?case by (simp add: setNewTransUnitTargetSuffix_def)
next
  case (units_read d)
  then show ?case by (simp add: lazyInitializeTransUnits_frame)
qed

section \<open>The texts of the warnings and the reads of a constructed file\<close>

lemma show_nat_hd: "show_nat n \<noteq> [] \<and> hd (show_nat n) \<in> set ''0123456789''"
proof (induction n rule: show_nat.induct)
  case (1 n)
  show ?case
  proof (cases "n < 10")
    case True
    then have "''0123456789'' ! n \<in> set ''0123456789''"
      by (intro nth_mem) simp
    with True show ?thesis by (simp add: show_nat_digit)
  next
    case False
    with 1 have "show_nat (n div 10) \<noteq> []" "hd (show_nat (n div 10)) \<in> set ''0123456789''"
      by simp_all
    moreover have "show_nat n = show_nat (n div 10) @ [''0123456789'' ! (n mod 10)]"
      using False by (subst show_nat.simps) simp
    ultimately show ?thesis by simp
  qed
qed

lemma mismatch_is_not_missing_id:
  "master_mismatch_warning a b \<noteq> missing_id_warning p"
proof
  assume eq: "master_mismatch_warning a b = missing_id_warning p"
  have "hd (master_mismatch_warning a b) = hd (show_nat a)"
    using show_nat_hd [of a] by (simp add: master_mismatch_warning_def)
  moreover have "hd (missing_id_warning p) = CHR ''o''"
    by (simp add: missing_id_warning_def)
  ultimately have "CHR ''o'' \<in> set ''0123456789''"
    using show_nat_hd [of a] eq by simp
  then show False by simp
qed

lemma master_mismatch_warning_names_counts:
  "sublist (show_nat a) (master_mismatch_warning a b)"
  "sublist (show_nat b) (master_mismatch_warning a b)"
proof -
  have "master_mismatch_warning a b =
      [] @ show_nat a @ ('' trans units found in master, but this file has ''
         @ show_nat b @ ''. Check if it is the correct master'')"
    by (simp add: master_mismatch_warning_def)
  then show "sublist (show_nat a) (master_mismatch_warning a b)"
    unfolding sublist_def by blast
  have "master_mismatch_warning a b =
      (show_nat a @ '' trans units found in master, but this file has'' @ '' '')
         @ show_nat b @ ''. Check if it is the correct master''"
    by (simp add: master_mismatch_warning_def)
  then show "sublist (show_nat b) (master_mismatch_warning a b)"
    unfolding sublist_def by blast
qed

lemma missing_id_warning_names_id: "sublist ''without \"id\"'' (missing_id_warning p)"
proof -
  have "missing_id_warning p =
      ''oops, msg '' @ ''without \"id\"'' @ ('' found in master, please check file '' @ p)"
    by (simp add: missing_id_warning_def)
  then show ?thesis
    unfolding sublist_def by blast
qed

lemma accessors_of_initialized:
  assumes "f_transUnits d = Some us"
  shows "numberOfTransUnits c d = (length us, d)"
    and "numberOfTransUnitsWithMissingId c d = (f_numberOfTransUnitsWithMissingId d, d)"
    and "warnings c d = (f_warnings d, d)"
    and "allTransUnits c d = (us, d)"
  using assms
  by (simp_all add: numberOfTransUnits_def numberOfTransUnitsWithMissingId_def warnings_def
      allTransUnits_def lazyInitializeTransUnits_initialized [OF assms] unitsOf_def)

lemma accessors_of_uninitialized:
  assumes "f_transUnits d = None"
  shows "fst (numberOfTransUnits c d) = length (getElementsByTagName (f_parsedDocument d) ''translation'')"
    and "fst (numberOfTransUnitsWithMissingId c d) =
           length (elementsWithoutId (getElementsByTagName (f_parsedDocument d) ''translation''))"
    and "fst (warnings c d) = f_warnings d @ replicate
           (length (elementsWithoutId (getElementsByTagName (f_parsedDocument d) ''translation'')))
           (missing_id_warning (f_filename d))"
  by (simp_all add: numberOfTransUnits_def numberOfTransUnitsWithMissingId_def warnings_def Let_def
      lazyInitializeTransUnits_fresh [OF assms])

lemma new_XtbFile_counts:
  assumes root: "length (getElementsByTagName (parseFromString c x) ''translationbundle'') = 1"
    and master: "case om of None \<Rightarrow> True
                 | Some mc \<Rightarrow> newXmbFile c (xmlContent mc) (path mc) (encoding mc) \<noteq> None"
  shows "\<exists>d rest. new_XtbFile c x p enc om = Inr d
           \<and> fst (numberOfTransUnits c d) = length (translationElements c x)
           \<and> fst (numberOfTransUnitsWithMissingId c d) = length (elementsWithoutId (translationElements c x))
           \<and> fst (warnings c d) =
               replicate (length (elementsWithoutId (translationElements c x))) (missing_id_warning p) @ rest"
proof (cases om)
  case None
  define d where "d = parseContent c x p enc emptyFile"
  have d: "f_transUnits d = None" "f_parsedDocument d = parseFromString c x" "f_filename d = p"
    "f_warnings d = []"
    by (simp_all add: d_def parseContent_def emptyFile_def)
  have "new_XtbFile c x p enc om = Inr d"
    using None root by (simp add: new_XtbFile_no_master d_def)
  then show ?thesis
    using accessors_of_uninitialized [OF d(1), of c]
    by (simp add: d translationElements_def)
next
  case (Some mc)
  with master obtain m where m: "newXmbFile c (xmlContent mc) (path mc) (encoding mc) = Some m"
    by auto
  obtain d where d: "new_XtbFile c x p enc (Some mc) = Inr d"
    "f_transUnits d = Some (map (unitOfElement (Some m)) (translationElements c x))"
    "f_numberOfTransUnitsWithMissingId d = length (elementsWithoutId (translationElements c x))"
    "f_warnings d =
       replicate (length (elementsWithoutId (translationElements c x))) (missing_id_warning p)
         @ (if xmb_numberOfTransUnits m \<noteq> length (translationElements c x)
            then [master_mismatch_warning (xmb_numberOfTransUnits m) (length (translationElements c x))]
            else [])"
    using new_XtbFile_master [OF root m, of p enc] by blast
  show ?thesis
    using Some d(1) by (simp add: accessors_of_initialized [OF d(2)] d(3,4))
qed

section \<open>More about the example files\<close>

lemma ex_roots:
  "length (getElementsByTagName (parseFromString ex_collaborators ex_text_empty) ''translationbundle'') = 1"
  "length (getElementsByTagName (parseFromString ex_collaborators ex_text_one) ''translationbundle'') = 1"
  "length (getElementsByTagName (parseFromString ex_collaborators ex_text_two) ''translationbundle'') = 1"
  "length (getElementsByTagName (parseFromString ex_collaborators ex_text_eleven) ''translationbundle'') = 1"
  by (simp_all add: ex_defs getElementsByTagName_def)

lemma ex_master_parses:
  "newXmbFile ex_collaborators (xmlContent ex_master_content) (path ex_master_content)
     (encoding ex_master_content) = Some ex_master"
  "newXmbFile ex_collaborators (xmlContent ex_no_master_content) (path ex_no_master_content)
     (encoding ex_no_master_content) = None"
  by (simp_all add: ex_collaborators_def ex_master_content_def ex_no_master_content_def ex_master_text_def)

lemma ex_eleven:
  "length (translationElements ex_collaborators ex_text_eleven) = 11"
  "length (elementsWithoutId (translationElements ex_collaborators ex_text_eleven)) = 1"
  by (simp_all add: ex_defs getElementsByTagName_def translationElements_def elementsWithoutId_def)

lemma ex_translations_two:
  "length (translationElements ex_collaborators ex_text_two) = 2"
  "length (elementsWithoutId (translationElements ex_collaborators ex_text_two)) = 1"
  by (simp_all add: ex_defs getElementsByTagName_def translationElements_def elementsWithoutId_def)

lemma ex_lookup:
  "fst (transUnitWithId ex_collaborators ''a'' ex_file_one) \<noteq> None"
  "fst (transUnitWithId ex_collaborators ''unittomerge'' ex_file_empty) = None"
  "fst (transUnitWithId ex_collaborators ''icu'' ex_file_empty) = None"
  "fst (transUnitWithId ex_collaborators ''unittomerge'' (setNewTransUnitTargetPraefix ''TODO: '' ex_file_empty)) = None"
  by (simp_all add: ex_defs op_defs Let_def)

lemma ex_accessors:
  "fst (numberOfTransUnits ex_collaborators ex_file_one) = 1"
  "fst (numberOfTransUnits ex_collaborators ex_file_two) = 2"
  "fst (warnings ex_collaborators ex_file_one) = []"
  "fst (warnings ex_collaborators ex_file_two) =
     [''oops, msg without \"id\" found in master, please check file messages.en.xtb'',
      ''1 trans units found in master, but this file has 2. Check if it is the correct master'']"
  by (simp_all add: ex_defs op_defs Let_def)

lemma ex_reachable:
  "reachable ex_collaborators ex_file_empty"
  "reachable ex_collaborators (setNewTransUnitTargetPraefix ''TODO: '' ex_file_empty)"
proof -
  show "reachable ex_collaborators ex_file_empty"
    using ex_constructed(1) by (rule reachable.constructed)
  then show "reachable ex_collaborators (setNewTransUnitTargetPraefix ''TODO: '' ex_file_empty)"
    by (rule reachable.praefix_set)
qed


section \<open>The claims\<close>

text \<open>
  C1, as amended. On a reachable file that has no unit with the id of \<open>u\<close>, the import with
  \<open>isDefaultLang = False\<close> and \<open>copyContent = True\<close> returns a new unit, which is the last
  unit of the file. When the serializer gives back the text that was parsed into the new
  element, the target content of the new unit is the source content of \<open>u\<close> for an ICU
  message, and prefix, source content and suffix in a row otherwise; so it is the source
  content itself when the message is an ICU message or prefix and suffix are both empty.
  Nothing is said here about \<open>copyContent = False\<close>.
\<close>

theorem importNewTransUnit_copies_decorated_source:
  assumes "reachable c d" and "fst (transUnitWithId c (tu_id u) d) = None"
    and "serializeToString c (parseFragment c
           (if isICUMessage c u (tu_sourceContent u) then tu_sourceContent u
            else getNewTransUnitTargetPraefix d @ tu_sourceContent u @ getNewTransUnitTargetSuffix d))
         = (if isICUMessage c u (tu_sourceContent u) then tu_sourceContent u
            else getNewTransUnitTargetPraefix d @ tu_sourceContent u @ getNewTransUnitTargetSuffix d)"
  shows "\<exists>nu d'. importNewTransUnit c u False True d = (Inr (Some nu), d')
           \<and> fst (allTransUnits c d') = fst (allTransUnits c d) @ [nu]
           \<and> targetContent c nu =
               (if isICUMessage c u (tu_sourceContent u) then tu_sourceContent u
                else getNewTransUnitTargetPraefix d @ tu_sourceContent u @ getNewTransUnitTargetSuffix d)
           \<and> (if isICUMessage c u (tu_sourceContent u)
                 \<or> (getNewTransUnitTargetPraefix d = [] \<and> getNewTransUnitTargetSuffix d = [])
               then targetContent c nu = tu_sourceContent u
               else targetContent c nu
                      = getNewTransUnitTargetPraefix d @ tu_sourceContent u @ getNewTransUnitTargetSuffix d)"
proof -
  obtain nu d' where call: "importNewTransUnit c u False True d = (Inr (Some nu), d')"
    and el: "unit_element nu =
               Element ''translation'' [(''id'', tu_id u)]
                 (parseFragment c
                    (if isICUMessage c u (tu_sourceContent u) then tu_sourceContent u
                     else f_targetPraefix d @ tu_sourceContent u @ f_targetSuffix d))"
    and units: "unitsOf d' = unitsOf (lazyInitializeTransUnits c d) @ [nu]"
    using importNewTransUnit_fresh [OF assms(2) reachable_root [OF assms(1)]] by blast
  have d': "d' = snd (importNewTransUnit c u False True d)"
    by (simp add: call)
  have "f_transUnits d' \<noteq> None"
    by (simp add: d' importNewTransUnit_def transUnitWithId_def Let_def countNumbers_frame
        lazyInitializeTransUnits_frame split: option.splits prod.splits)
  then obtain us where us: "f_transUnits d' = Some us" by auto
  then have "unitsOf d' = us" by (simp add: unitsOf_def)
  with units accessors_of_initialized(4) [OF us, of c] have stored:
    "fst (allTransUnits c d') = fst (allTransUnits c d) @ [nu]"
    by (simp add: allTransUnits_def Let_def)
  have content: "targetContent c nu =
               (if isICUMessage c u (tu_sourceContent u) then tu_sourceContent u
                else getNewTransUnitTargetPraefix d @ tu_sourceContent u @ getNewTransUnitTargetSuffix d)"
    using assms(3)
    by (auto simp add: targetContent_def getXMLContent_def el getNewTransUnitTargetPraefix_def
        getNewTransUnitTargetSuffix_def split: if_splits)
  from call stored content show ?thesis
    by (intro exI [of _ nu] exI [of _ d']) auto
qed

text \<open>
  The claim as the spec has it fails twice on the file that the constructor returns for
  \<open>ex_text_empty\<close>: with the prefix \<open>TODO: \<close> configured, the copy is not the source
  content of the unit; and with \<open>copyContent = False\<close> the target content is the source
  content, not the empty text (the parameter is passed to the clone of the unit only, the
  content of the new element does not depend on it).
\<close>

theorem importNewTransUnit_target_content_counterexample:
  "new_XtbFile ex_collaborators ex_text_empty ''messages.en.xtb'' ''UTF-8'' None = Inr ex_file_empty
   \<and> fst (transUnitWithId ex_collaborators (tu_id ex_unit) ex_file_empty) = None
   \<and> tu_sourceContent ex_unit = ''Test for merging units''
   \<and> importedTargetContent ex_collaborators ex_unit False True
        (setNewTransUnitTargetPraefix ''TODO: '' ex_file_empty) = Some ''TODO: Test for merging units''
   \<and> importedTargetContent ex_collaborators ex_unit False False ex_file_empty
        = Some ''Test for merging units''"
  using ex_constructed(1) ex_imports
  by (simp add: ex_unit_def ex_lookup(2))

theorem importNewTransUnit_copies_decorated_source_witness:
  "reachable ex_collaborators ex_file_empty
   \<and> fst (transUnitWithId ex_collaborators (tu_id ex_unit) ex_file_empty) = None
   \<and> serializeToString ex_collaborators (parseFragment ex_collaborators (tu_sourceContent ex_unit))
        = tu_sourceContent ex_unit
   \<and> \<not> isICUMessage ex_collaborators ex_unit (tu_sourceContent ex_unit)
   \<and> getNewTransUnitTargetPraefix ex_file_empty = []
   \<and> getNewTransUnitTargetSuffix ex_file_empty = []
   \<and> (\<exists>nu d'. importNewTransUnit ex_collaborators ex_unit False True ex_file_empty = (Inr (Some nu), d')
          \<and> fst (allTransUnits ex_collaborators d') = [nu]
          \<and> targetContent ex_collaborators nu = ''Test for merging units'')"
proof -
  have f: "fst (transUnitWithId ex_collaborators (tu_id ex_unit) ex_file_empty) = None"
    using ex_lookup(2) by (simp add: ex_unit_def)
  have icu: "\<not> isICUMessage ex_collaborators ex_unit (tu_sourceContent ex_unit)"
    by (simp add: ex_collaborators_def ex_unit_def)
  have pre: "getNewTransUnitTargetPraefix ex_file_empty = []" "getNewTransUnitTargetSuffix ex_file_empty = []"
    by (simp_all add: getNewTransUnitTargetPraefix_def getNewTransUnitTargetSuffix_def ex_file_empty_def)
  have rt: "serializeToString ex_collaborators (parseFragment ex_collaborators (tu_sourceContent ex_unit))
        = tu_sourceContent ex_unit"
    by (simp add: ex_collaborators_def ex_unit_def)
  have rt': "serializeToString ex_collaborators (parseFragment ex_collaborators
           (if isICUMessage ex_collaborators ex_unit (tu_sourceContent ex_unit) then tu_sourceContent ex_unit
            else getNewTransUnitTargetPraefix ex_file_empty @ tu_sourceContent ex_unit
                   @ getNewTransUnitTargetSuffix ex_file_empty))
         = (if isICUMessage ex_collaborators ex_unit (tu_sourceContent ex_unit) then tu_sourceContent ex_unit
            else getNewTransUnitTargetPraefix ex_file_empty @ tu_sourceContent ex_unit
                   @ getNewTransUnitTargetSuffix ex_file_empty)"
    using rt icu pre by simp
  have none: "fst (allTransUnits ex_collaborators ex_file_empty) = []"
    by (simp add: ex_defs op_defs Let_def)
  have src: "tu_sourceContent ex_unit = ''Test for merging units''"
    by (simp add: ex_unit_def)
  from importNewTransUnit_copies_decorated_source [OF ex_reachable(1) f rt']
  have "\<exists>nu d'. importNewTransUnit ex_collaborators ex_unit False True ex_file_empty = (Inr (Some nu), d')
          \<and> fst (allTransUnits ex_collaborators d') = [nu]
          \<and> targetContent ex_collaborators nu = ''Test for merging units''"
    using icu pre none src by auto
  with ex_reachable(1) f rt icu pre show ?thesis by blast
qed

text \<open>
  C2, as amended. When the constructor of the master throws, the constructor of the xtb
  file throws too: no file is returned. For a text with exactly one \<^verbatim>\<open>translationbundle\<close>
  element the error is the one that names the path of the master.
\<close>

theorem wrong_master_fails_construction:
  assumes "newXmbFile c (xmlContent om) (path om) (encoding om) = None"
  shows "new_XtbFile c x p enc (Some om) =
           (if length (getElementsByTagName (parseFromString c x) ''translationbundle'') = 1
            then Inl (no_xmb_file_error (path om))
            else Inl (no_xtb_file_error p))"
  using assms by (simp add: new_XtbFile_wrong_master new_XtbFile_no_root)

text \<open>
  The claim as the spec has it fails on \<open>ex_text_one\<close> with a master text that is no xmb:
  the result is the error, not a file without a master.
\<close>

theorem wrong_master_fails_construction_counterexample:
  "newXmbFile ex_collaborators (xmlContent ex_no_master_content) (path ex_no_master_content)
     (encoding ex_no_master_content) = None
   \<and> new_XtbFile ex_collaborators ex_text_one ''messages.en.xtb'' ''UTF-8'' (Some ex_no_master_content)
       = Inl (Error ''File \"wrong.txt\" seems to be no xmb file. An xtb file needs xmb as master file.'')"
  by (simp add: ex_defs op_defs Let_def no_xmb_file_error_def)

theorem wrong_master_fails_construction_witness:
  "newXmbFile ex_collaborators (xmlContent ex_no_master_content) (path ex_no_master_content)
     (encoding ex_no_master_content) = None
   \<and> new_XtbFile ex_collaborators ex_text_two ''messages.en.xtb'' ''UTF-8'' (Some ex_no_master_content)
       = Inl (no_xmb_file_error ''wrong.txt'')"
  using wrong_master_fails_construction [OF ex_master_parses(2), of ex_text_two "''messages.en.xtb''" "''UTF-8''"]
    ex_master_parses(2) ex_roots(3)
  by (simp add: ex_no_master_content_def)

text \<open>
  C3. With one \<^verbatim>\<open>translationbundle\<close> element and a master that its constructor accepts,
  the construction returns a file, whose units are the \<^verbatim>\<open>translation\<close> elements of the
  text. Let \<open>ws\<close> be the warnings about a missing id, none of which is a warning about the
  numbers of units, and \<open>w\<close> the warning about the numbers of units, whose text has the
  digits of the number of units of the master and the digits of the number of units of the
  file in it. When the two numbers differ, the warnings of the file are \<open>ws\<close> followed
  by \<open>w\<close>, once; when they are equal, the warnings are \<open>ws\<close> alone.
\<close>

theorem master_count_mismatch_gives_one_warning:
  assumes "length (getElementsByTagName (parseFromString c x) ''translationbundle'') = 1"
    and "newXmbFile c (xmlContent om) (path om) (encoding om) = Some m"
  shows "\<exists>d ws w. new_XtbFile c x p enc (Some om) = Inr d
           \<and> fst (numberOfTransUnits c d) = length (translationElements c x)
           \<and> ws = replicate (length (elementsWithoutId (translationElements c x))) (missing_id_warning p)
           \<and> (\<forall>a b. master_mismatch_warning a b \<notin> set ws)
           \<and> w = master_mismatch_warning (xmb_numberOfTransUnits m) (fst (numberOfTransUnits c d))
           \<and> sublist (show_nat (xmb_numberOfTransUnits m)) w
           \<and> sublist (show_nat (fst (numberOfTransUnits c d))) w
           \<and> sublist ''Check if it is the correct master'' w
           \<and> fst (warnings c d) =
               (if xmb_numberOfTransUnits m \<noteq> fst (numberOfTransUnits c d) then ws @ [w] else ws)"
proof -
  let ?ws = "replicate (length (elementsWithoutId (translationElements c x))) (missing_id_warning p)"
  obtain d where d: "new_XtbFile c x p enc (Some om) = Inr d"
    "f_transUnits d = Some (map (unitOfElement (Some m)) (translationElements c x))"
    "f_warnings d = ?ws
         @ (if xmb_numberOfTransUnits m \<noteq> length (translationElements c x)
            then [master_mismatch_warning (xmb_numberOfTransUnits m) (length (translationElements c x))]
            else [])"
    using new_XtbFile_master [OF assms, of p enc] by blast
  let ?w = "master_mismatch_warning (xmb_numberOfTransUnits m) (fst (numberOfTransUnits c d))"
  have none: "\<forall>a b. master_mismatch_warning a b \<notin> set ?ws"
    using mismatch_is_not_missing_id by auto
  have number: "fst (numberOfTransUnits c d) = length (translationElements c x)"
    by (simp add: accessors_of_initialized [OF d(2)])
  have names: "sublist (show_nat (xmb_numberOfTransUnits m)) ?w"
    "sublist (show_nat (fst (numberOfTransUnits c d))) ?w"
    by (rule master_mismatch_warning_names_counts)+
  have "?w = (show_nat (xmb_numberOfTransUnits m) @ '' trans units found in master, but this file has ''
               @ show_nat (fst (numberOfTransUnits c d)) @ ''. '')
             @ ''Check if it is the correct master'' @ []"
    by (simp add: master_mismatch_warning_def)
  then have check: "sublist ''Check if it is the correct master'' ?w"
    unfolding sublist_def by blast
  have all: "fst (warnings c d) =
               (if xmb_numberOfTransUnits m \<noteq> fst (numberOfTransUnits c d) then ?ws @ [?w] else ?ws)"
    by (simp add: accessors_of_initialized [OF d(2)] d(3))
  from d(1) number none names check all show ?thesis
    by blast
qed

theorem master_count_mismatch_gives_one_warning_witness:
  "length (getElementsByTagName (parseFromString ex_collaborators ex_text_two) ''translationbundle'') = 1
   \<and> length (getElementsByTagName (parseFromString ex_collaborators ex_text_one) ''translationbundle'') = 1
   \<and> newXmbFile ex_collaborators (xmlContent ex_master_content) (path ex_master_content)
        (encoding ex_master_content) = Some ex_master
   \<and> xmb_numberOfTransUnits ex_master = 1
   \<and> new_XtbFile ex_collaborators ex_text_two ''messages.en.xtb'' ''UTF-8'' (Some ex_master_content)
        = Inr ex_file_two
   \<and> fst (numberOfTransUnits ex_collaborators ex_file_two) = 2
   \<and> fst (warnings ex_collaborators ex_file_two) =
        [missing_id_warning ''messages.en.xtb'', master_mismatch_warning 1 2]
   \<and> master_mismatch_warning 1 2 =
        ''1 trans units found in master, but this file has 2. Check if it is the correct master''
   \<and> sublist (show_nat 1) (master_mismatch_warning 1 2)
   \<and> sublist (show_nat 2) (master_mismatch_warning 1 2)
   \<and> new_XtbFile ex_collaborators ex_text_one ''messages.en.xtb'' ''UTF-8'' (Some ex_master_content)
        = Inr ex_file_one
   \<and> fst (numberOfTransUnits ex_collaborators ex_file_one) = 1
   \<and> fst (warnings ex_collaborators ex_file_one) = []"
proof -
  have n: "xmb_numberOfTransUnits ex_master = 1"
    by (simp add: xmb_numberOfTransUnits_def ex_master_def)
  have rendered: "master_mismatch_warning 1 2 =
        ''1 trans units found in master, but this file has 2. Check if it is the correct master''"
    by (simp add: master_mismatch_warning_def show_nat_digit)
  from master_count_mismatch_gives_one_warning [OF ex_roots(3) ex_master_parses(1),
      of "''messages.en.xtb''" "''UTF-8''"]
  have two: "fst (warnings ex_collaborators ex_file_two) =
        [missing_id_warning ''messages.en.xtb'', master_mismatch_warning 1 2]
      \<and> sublist (show_nat 1) (master_mismatch_warning 1 2)
      \<and> sublist (show_nat 2) (master_mismatch_warning 1 2)"
    by (auto simp add: ex_constructed(3) n ex_accessors(2) ex_translations_two)
  from master_count_mismatch_gives_one_warning [OF ex_roots(2) ex_master_parses(1),
      of "''messages.en.xtb''" "''UTF-8''"]
  have one: "fst (warnings ex_collaborators ex_file_one) = []"
    by (auto simp add: ex_constructed(2) n ex_accessors(1,3))
  show ?thesis
    using ex_roots(2,3) ex_master_parses(1) n ex_constructed(2,3) ex_accessors(1,2) rendered two one
    by simp
qed


text \<open>
  C4. An import of a unit whose id the file already has throws the error that names the
  id. The file afterwards has the same tree, and every read of it (the units, the four
  counters, the warnings) gives what it gave before; a file whose units were already built
  is the same file afterwards.
\<close>

theorem importNewTransUnit_duplicate_id_is_atomic:
  assumes "fst (transUnitWithId c (tu_id u) d) \<noteq> None"
  shows "fst (importNewTransUnit c u isDefaultLang copyContent d) = Inl (duplicate_id_error (tu_id u))
    \<and> f_parsedDocument (snd (importNewTransUnit c u isDefaultLang copyContent d)) = f_parsedDocument d
    \<and> fst (allTransUnits c (snd (importNewTransUnit c u isDefaultLang copyContent d)))
          = fst (allTransUnits c d)
    \<and> fst (numberOfTransUnits c (snd (importNewTransUnit c u isDefaultLang copyContent d)))
          = fst (numberOfTransUnits c d)
    \<and> fst (numberOfTransUnitsWithMissingId c (snd (importNewTransUnit c u isDefaultLang copyContent d)))
          = fst (numberOfTransUnitsWithMissingId c d)
    \<and> fst (numberOfUntranslatedTransUnits c (snd (importNewTransUnit c u isDefaultLang copyContent d)))
          = fst (numberOfUntranslatedTransUnits c d)
    \<and> fst (numberOfReviewedTransUnits c (snd (importNewTransUnit c u isDefaultLang copyContent d)))
          = fst (numberOfReviewedTransUnits c d)
    \<and> fst (warnings c (snd (importNewTransUnit c u isDefaultLang copyContent d))) = fst (warnings c d)
    \<and> (f_transUnits d \<noteq> None \<longrightarrow> snd (importNewTransUnit c u isDefaultLang copyContent d) = d)"
proof -
  have call: "importNewTransUnit c u isDefaultLang copyContent d =
      (Inl (duplicate_id_error (tu_id u)), lazyInitializeTransUnits c d)"
    using assms by (rule importNewTransUnit_duplicate)
  have same: "f_transUnits d \<noteq> None \<longrightarrow> lazyInitializeTransUnits c d = d"
    by (auto simp add: lazyInitializeTransUnits_initialized)
  show ?thesis
    unfolding call
    using same
    by (simp add: allTransUnits_def numberOfTransUnits_def numberOfTransUnitsWithMissingId_def
        numberOfUntranslatedTransUnits_def numberOfReviewedTransUnits_def warnings_def Let_def
        lazyInitializeTransUnits_idem lazyInitializeTransUnits_frame(1))
qed

theorem importNewTransUnit_duplicate_id_is_atomic_witness:
  "fst (transUnitWithId ex_collaborators (tu_id ex_unit_a) ex_file_one) \<noteq> None
   \<and> f_transUnits ex_file_one \<noteq> None
   \<and> importNewTransUnit ex_collaborators ex_unit_a False True ex_file_one =
       (Inl (Error ''tu with id a already exists in file, cannot import it''), ex_file_one)"
proof -
  have dup: "fst (transUnitWithId ex_collaborators (tu_id ex_unit_a) ex_file_one) \<noteq> None"
    using ex_lookup(1) by (simp add: ex_unit_a_def)
  have built: "f_transUnits ex_file_one \<noteq> None"
    by (simp add: ex_file_one_def)
  show ?thesis
    using dup built
      importNewTransUnit_duplicate_id_is_atomic [OF dup, of False True]
    by (simp add: prod_eq_iff duplicate_id_error_def ex_unit_a_def)
qed

text \<open>
  C5, as amended. Without a master the construction throws exactly when the tree of the text
  does not have exactly one \<^verbatim>\<open>translationbundle\<close> element. With a master it throws exactly
  when the tree does not have exactly one such element or the constructor of the master
  throws.
\<close>

theorem construction_fails_iff:
  "(isl (new_XtbFile c x p enc None)
      \<longleftrightarrow> length (getElementsByTagName (parseFromString c x) ''translationbundle'') \<noteq> 1)
   \<and> (isl (new_XtbFile c x p enc (Some om))
      \<longleftrightarrow> length (getElementsByTagName (parseFromString c x) ''translationbundle'') \<noteq> 1
          \<or> newXmbFile c (xmlContent om) (path om) (encoding om) = None)"
proof (cases "length (getElementsByTagName (parseFromString c x) ''translationbundle'') = 1")
  case False
  then show ?thesis by (simp add: new_XtbFile_no_root)
next
  case True
  show ?thesis
  proof (cases "newXmbFile c (xmlContent om) (path om) (encoding om)")
    case None
    with True show ?thesis
      by (simp add: new_XtbFile_no_master new_XtbFile_wrong_master)
  next
    case (Some m)
    obtain d where "new_XtbFile c x p enc (Some om) = Inr d"
      using new_XtbFile_master [OF True Some, of p enc] by blast
    with True Some show ?thesis
      by (simp add: new_XtbFile_no_master)
  qed
qed

text \<open>
  The claim as the spec has it fails on \<open>ex_text_empty\<close>, which has exactly one
  \<^verbatim>\<open>translationbundle\<close> element, with a master text that is no xmb: the construction
  throws.
\<close>

theorem construction_fails_with_one_root_counterexample:
  "length (getElementsByTagName (parseFromString ex_collaborators ex_text_empty) ''translationbundle'') = 1
   \<and> isl (new_XtbFile ex_collaborators ex_text_empty ''messages.en.xtb'' ''UTF-8''
             (Some ex_no_master_content))"
  by (simp add: ex_defs op_defs Let_def)

theorem construction_fails_iff_witness:
  "length (getElementsByTagName (parseFromString ex_collaborators ''no xml at all'') ''translationbundle'') \<noteq> 1
   \<and> isl (new_XtbFile ex_collaborators ''no xml at all'' ''messages.en.xtb'' ''UTF-8'' None)
   \<and> length (getElementsByTagName (parseFromString ex_collaborators ex_text_two) ''translationbundle'') = 1
   \<and> \<not> isl (new_XtbFile ex_collaborators ex_text_two ''messages.en.xtb'' ''UTF-8'' None)
   \<and> \<not> isl (new_XtbFile ex_collaborators ex_text_two ''messages.en.xtb'' ''UTF-8'' (Some ex_master_content))
   \<and> isl (new_XtbFile ex_collaborators ex_text_two ''messages.en.xtb'' ''UTF-8'' (Some ex_no_master_content))"
proof -
  have none: "length (getElementsByTagName (parseFromString ex_collaborators ''no xml at all'') ''translationbundle'') \<noteq> 1"
    by (simp add: ex_defs getElementsByTagName_def)
  show ?thesis
    using none ex_roots(3) ex_master_parses
      construction_fails_iff [of ex_collaborators "''no xml at all''" "''messages.en.xtb''" "''UTF-8''" ex_master_content]
      construction_fails_iff [of ex_collaborators ex_text_two "''messages.en.xtb''" "''UTF-8''" ex_master_content]
      construction_fails_iff [of ex_collaborators ex_text_two "''messages.en.xtb''" "''UTF-8''" ex_no_master_content]
    by simp
qed

text \<open>
  C6. On a reachable file that has no unit with the id of \<open>u\<close>, the import returns a new
  unit for every value of the two flags. Its \<^verbatim>\<open>translation\<close> element, which is appended to
  the \<^verbatim>\<open>translationbundle\<close> element, has as content the source content of \<open>u\<close> as it is
  when that is an ICU message, and prefix, source content and suffix in a row when it is
  not.
\<close>

theorem importNewTransUnit_decorates_only_non_icu:
  assumes "reachable c d" and "fst (transUnitWithId c (tu_id u) d) = None"
  shows "\<exists>nu d'. importNewTransUnit c u isDefaultLang copyContent d = (Inr (Some nu), d')
           \<and> tagName (unit_element nu) = ''translation''
           \<and> childNodes (unit_element nu) =
               parseFragment c
                 (if isICUMessage c u (tu_sourceContent u) then tu_sourceContent u
                  else getNewTransUnitTargetPraefix d @ tu_sourceContent u @ getNewTransUnitTargetSuffix d)
           \<and> f_parsedDocument d' =
               modifyFirstElementByTagName (f_parsedDocument d) ''translationbundle''
                 (appendChild (unit_element nu))"
proof -
  obtain nu d' where "importNewTransUnit c u isDefaultLang copyContent d = (Inr (Some nu), d')"
    and "unit_element nu =
               Element ''translation'' [(''id'', tu_id u)]
                 (parseFragment c
                    (if isICUMessage c u (tu_sourceContent u) then tu_sourceContent u
                     else f_targetPraefix d @ tu_sourceContent u @ f_targetSuffix d))"
    and "f_parsedDocument d' =
               modifyFirstElementByTagName (f_parsedDocument d) ''translationbundle''
                 (appendChild (unit_element nu))"
    using importNewTransUnit_fresh [OF assms(2) reachable_root [OF assms(1)]] by blast
  then show ?thesis
    by (simp add: getNewTransUnitTargetPraefix_def getNewTransUnitTargetSuffix_def)
qed

theorem importNewTransUnit_decorates_only_non_icu_witness:
  "reachable ex_collaborators (setNewTransUnitTargetPraefix ''TODO: '' ex_file_empty)
   \<and> fst (transUnitWithId ex_collaborators (tu_id ex_icu_unit)
            (setNewTransUnitTargetPraefix ''TODO: '' ex_file_empty)) = None
   \<and> fst (transUnitWithId ex_collaborators (tu_id ex_unit)
            (setNewTransUnitTargetPraefix ''TODO: '' ex_file_empty)) = None
   \<and> isICUMessage ex_collaborators ex_icu_unit (tu_sourceContent ex_icu_unit)
   \<and> \<not> isICUMessage ex_collaborators ex_unit (tu_sourceContent ex_unit)
   \<and> (\<exists>nu d'. importNewTransUnit ex_collaborators ex_icu_unit False True
                  (setNewTransUnitTargetPraefix ''TODO: '' ex_file_empty) = (Inr (Some nu), d')
           \<and> childNodes (unit_element nu) = [TextNode ''{n, plural, =0 {none} other {some}}''])
   \<and> (\<exists>nu d'. importNewTransUnit ex_collaborators ex_unit False True
                  (setNewTransUnitTargetPraefix ''TODO: '' ex_file_empty) = (Inr (Some nu), d')
           \<and> childNodes (unit_element nu) = [TextNode ''TODO: Test for merging units''])"
proof -
  let ?d = "setNewTransUnitTargetPraefix ''TODO: '' ex_file_empty"
  have f1: "fst (transUnitWithId ex_collaborators (tu_id ex_icu_unit) ?d) = None"
    and f2: "fst (transUnitWithId ex_collaborators (tu_id ex_unit) ?d) = None"
    by (simp_all add: ex_defs op_defs Let_def)
  have icu: "isICUMessage ex_collaborators ex_icu_unit (tu_sourceContent ex_icu_unit)"
    "\<not> isICUMessage ex_collaborators ex_unit (tu_sourceContent ex_unit)"
    by (simp_all add: ex_collaborators_def ex_icu_unit_def ex_unit_def)
  have pre: "getNewTransUnitTargetPraefix ?d = ''TODO: ''" "getNewTransUnitTargetSuffix ?d = []"
    by (simp_all add: getNewTransUnitTargetPraefix_def getNewTransUnitTargetSuffix_def
        setNewTransUnitTargetPraefix_def ex_file_empty_def)
  have frag: "parseFragment ex_collaborators (tu_sourceContent ex_icu_unit) =
      [TextNode ''{n, plural, =0 {none} other {some}}'']"
    "parseFragment ex_collaborators (''TODO: '' @ tu_sourceContent ex_unit) =
      [TextNode ''TODO: Test for merging units'']"
    by (simp_all add: ex_collaborators_def ex_icu_unit_def ex_unit_def)
  from importNewTransUnit_decorates_only_non_icu [OF ex_reachable(2) f1, of False True]
  have a: "\<exists>nu d'. importNewTransUnit ex_collaborators ex_icu_unit False True ?d = (Inr (Some nu), d')
           \<and> childNodes (unit_element nu) = [TextNode ''{n, plural, =0 {none} other {some}}'']"
    using icu(1) frag(1) by auto
  from importNewTransUnit_decorates_only_non_icu [OF ex_reachable(2) f2, of False True]
  have b: "\<exists>nu d'. importNewTransUnit ex_collaborators ex_unit False True ?d = (Inr (Some nu), d')
           \<and> childNodes (unit_element nu) = [TextNode ''TODO: Test for merging units'']"
    using icu(2) frag(2) pre by auto
  show ?thesis
    using ex_reachable(2) f1 f2 icu a b by blast
qed

text \<open>
  C7. A file without a master has no source language (\<open>None\<close>, no error), and setting
  a source language leaves the file as it is; a file with a master has the source language of
  its master.
\<close>

theorem sourceLanguage_delegates_to_master:
  "(f_masterFile d = None \<longrightarrow> sourceLanguage d = None \<and> setSourceLanguage language d = d)
   \<and> (f_masterFile d = Some m \<longrightarrow> sourceLanguage d = xmb_sourceLanguage m)"
  by (simp add: sourceLanguage_def setSourceLanguage_def)

theorem sourceLanguage_delegates_to_master_witness:
  "f_masterFile ex_file_empty = None \<and> sourceLanguage ex_file_empty = None
   \<and> setSourceLanguage ''de'' ex_file_empty = ex_file_empty
   \<and> f_masterFile ex_file_one = Some ex_master
   \<and> sourceLanguage ex_file_one = xmb_sourceLanguage ex_master"
  using sourceLanguage_delegates_to_master [of ex_file_empty "''de''" ex_master]
    sourceLanguage_delegates_to_master [of ex_file_one "''de''" ex_master]
  by (simp add: ex_file_empty_def ex_file_one_def)

text \<open>
  C8. A text with one \<^verbatim>\<open>translationbundle\<close> element and eleven \<^verbatim>\<open>translation\<close> elements,
  one of them without id, constructed without a master or with a master that its constructor
  accepts: the construction returns a file with eleven units, one unit with a missing id, and
  a warning that has \<^verbatim>\<open>without "id"\<close> in its text.
\<close>

theorem eleven_units_one_without_id:
  assumes "length (getElementsByTagName (parseFromString c x) ''translationbundle'') = 1"
    and "case om of None \<Rightarrow> True
         | Some mc \<Rightarrow> newXmbFile c (xmlContent mc) (path mc) (encoding mc) \<noteq> None"
    and "length (translationElements c x) = 11"
    and "length (elementsWithoutId (translationElements c x)) = 1"
  shows "\<exists>d. new_XtbFile c x p enc om = Inr d
           \<and> fst (numberOfTransUnits c d) = 11
           \<and> fst (numberOfTransUnitsWithMissingId c d) = 1
           \<and> (\<exists>w \<in> set (fst (warnings c d)). sublist ''without \"id\"'' w)"
proof -
  obtain d rest where d: "new_XtbFile c x p enc om = Inr d"
    "fst (numberOfTransUnits c d) = length (translationElements c x)"
    "fst (numberOfTransUnitsWithMissingId c d) = length (elementsWithoutId (translationElements c x))"
    "fst (warnings c d) =
       replicate (length (elementsWithoutId (translationElements c x))) (missing_id_warning p) @ rest"
    using new_XtbFile_counts [OF assms(1,2), of p enc] by blast
  have "missing_id_warning p \<in> set (fst (warnings c d))"
    by (simp add: d(4) assms(4))
  then have "\<exists>w \<in> set (fst (warnings c d)). sublist ''without \"id\"'' w"
    using missing_id_warning_names_id by blast
  with d(1,2,3) assms(3,4) show ?thesis
    by auto
qed

theorem eleven_units_one_without_id_witness:
  "length (getElementsByTagName (parseFromString ex_collaborators ex_text_eleven) ''translationbundle'') = 1
   \<and> length (translationElements ex_collaborators ex_text_eleven) = 11
   \<and> length (elementsWithoutId (translationElements ex_collaborators ex_text_eleven)) = 1
   \<and> (\<exists>d. new_XtbFile ex_collaborators ex_text_eleven ''messages.en.xtb'' ''UTF-8'' None = Inr d
           \<and> fst (numberOfTransUnits ex_collaborators d) = 11
           \<and> fst (numberOfTransUnitsWithMissingId ex_collaborators d) = 1
           \<and> (\<exists>w \<in> set (fst (warnings ex_collaborators d)). sublist ''without \"id\"'' w))
   \<and> (\<exists>d. new_XtbFile ex_collaborators ex_text_eleven ''messages.en.xtb'' ''UTF-8''
              (Some ex_master_content) = Inr d
           \<and> fst (numberOfTransUnits ex_collaborators d) = 11
           \<and> fst (numberOfTransUnitsWithMissingId ex_collaborators d) = 1
           \<and> (\<exists>w \<in> set (fst (warnings ex_collaborators d)). sublist ''without \"id\"'' w))"
proof -
  have no_master: "case None :: master_content option of None \<Rightarrow> True
         | Some mc \<Rightarrow> newXmbFile ex_collaborators (xmlContent mc) (path mc) (encoding mc) \<noteq> None"
    by simp
  have master: "case Some ex_master_content of None \<Rightarrow> True
         | Some mc \<Rightarrow> newXmbFile ex_collaborators (xmlContent mc) (path mc) (encoding mc) \<noteq> None"
    by (simp add: ex_master_parses(1))
  show ?thesis
    using ex_roots(4) ex_eleven
      eleven_units_one_without_id [OF ex_roots(4) no_master ex_eleven, of "''messages.en.xtb''" "''UTF-8''"]
      eleven_units_one_without_id [OF ex_roots(4) master ex_eleven, of "''messages.en.xtb''" "''UTF-8''"]
    by simp
qed

text \<open>
  C9, as amended. On a file that the constructor returned, or that was reached from such a
  file by the operations of this class (imports, changes of a language or of the decoration,
  reads), an import of a unit whose id the file does not have never returns null: it returns
  a new unit with that id, the units of the file afterwards are the units before followed by
  the new unit, the first \<^verbatim>\<open>translationbundle\<close> element has the element of the new unit as
  its new last child, and the file afterwards is reachable again. Nothing is said about a
  file after the removal of a unit.
\<close>

theorem importNewTransUnit_returns_unit_on_reachable_file:
  assumes "reachable c d" and "fst (transUnitWithId c (tu_id u) d) = None"
  shows "\<exists>nu d' e. importNewTransUnit c u isDefaultLang copyContent d = (Inr (Some nu), d')
           \<and> unit_id nu = tu_id u
           \<and> fst (allTransUnits c d') = fst (allTransUnits c d) @ [nu]
           \<and> getFirstElementByTagName (f_parsedDocument d) ''translationbundle'' = Some e
           \<and> getFirstElementByTagName (f_parsedDocument d') ''translationbundle'' =
               Some (Element ''translationbundle'' (attributes e) (childNodes e @ [unit_element nu]))
           \<and> reachable c d'"
proof -
  obtain nu d' where call: "importNewTransUnit c u isDefaultLang copyContent d = (Inr (Some nu), d')"
    and nu: "unit_id nu = tu_id u"
    and units: "unitsOf d' = unitsOf (lazyInitializeTransUnits c d) @ [nu]"
    and tree: "f_parsedDocument d' =
               modifyFirstElementByTagName (f_parsedDocument d) ''translationbundle''
                 (appendChild (unit_element nu))"
    using importNewTransUnit_fresh [OF assms(2) reachable_root [OF assms(1)]] by blast
  have d': "d' = snd (importNewTransUnit c u isDefaultLang copyContent d)"
    by (simp add: call)
  have "f_transUnits d' \<noteq> None"
    by (simp add: d' importNewTransUnit_def transUnitWithId_def Let_def countNumbers_frame
        lazyInitializeTransUnits_frame split: option.splits prod.splits)
  then obtain us where us: "f_transUnits d' = Some us" by auto
  then have "unitsOf d' = us" by (simp add: unitsOf_def)
  with units accessors_of_initialized(4) [OF us, of c] have stored:
    "fst (allTransUnits c d') = fst (allTransUnits c d) @ [nu]"
    by (simp add: allTransUnits_def Let_def)
  obtain e where e: "getFirstElementByTagName (f_parsedDocument d) ''translationbundle'' = Some e"
    using reachable_root [OF assms(1)]
    by (cases "getElementsByTagName (f_parsedDocument d) ''translationbundle''")
       (simp_all add: getFirstElementByTagName_def)
  have appended: "getFirstElementByTagName (f_parsedDocument d') ''translationbundle'' =
               Some (Element ''translationbundle'' (attributes e) (childNodes e @ [unit_element nu]))"
    unfolding tree using e by (rule appendChild_to_first_element)
  have again: "reachable c d'"
    unfolding d' using assms(1) by (rule reachable.imported)
  from call nu stored e appended again show ?thesis
    by blast
qed

text \<open>
  The claim as the spec has it, for the whole public interface, fails on \<open>ex_text_nested\<close>,
  which the constructor accepts: after the removal of the unit \<open>x\<close>, whose element holds the
  \<^verbatim>\<open>translationbundle\<close> element, the import of a unit with a new id returns null.
\<close>

theorem importNewTransUnit_null_after_removal_counterexample:
  "new_XtbFile ex_collaborators ex_text_nested ''messages.en.xtb'' ''UTF-8'' None = Inr ex_file_nested
   \<and> fst (transUnitWithId ex_collaborators (tu_id ex_unit)
            (removeTransUnitWithId ex_collaborators ''x'' ex_file_nested)) = None
   \<and> fst (importNewTransUnit ex_collaborators ex_unit False True
            (removeTransUnitWithId ex_collaborators ''x'' ex_file_nested)) = Inr None"
  by (simp add: ex_defs op_defs removeTransUnitWithId_def Let_def)

theorem importNewTransUnit_returns_unit_on_reachable_file_witness:
  "reachable ex_collaborators ex_file_two
   \<and> fst (transUnitWithId ex_collaborators (tu_id ex_unit) ex_file_two) = None
   \<and> getFirstElementByTagName (f_parsedDocument ex_file_two) ''translationbundle'' =
        Some (Element ''translationbundle'' [(''lang'', ''en'')]
                [Element ''translation'' [(''id'', ''a'')] [TextNode ''A''],
                 Element ''translation'' [] [TextNode ''B'']])
   \<and> (\<exists>nu d'. importNewTransUnit ex_collaborators ex_unit False True ex_file_two = (Inr (Some nu), d')
           \<and> unit_id nu = tu_id ex_unit
           \<and> fst (allTransUnits ex_collaborators d') = fst (allTransUnits ex_collaborators ex_file_two) @ [nu]
           \<and> getFirstElementByTagName (f_parsedDocument d') ''translationbundle'' =
               Some (Element ''translationbundle'' [(''lang'', ''en'')]
                       [Element ''translation'' [(''id'', ''a'')] [TextNode ''A''],
                        Element ''translation'' [] [TextNode ''B''], unit_element nu])
           \<and> reachable ex_collaborators d')"
proof -
  have r: "reachable ex_collaborators ex_file_two"
    using ex_constructed(3) by (rule reachable.constructed)
  have f: "fst (transUnitWithId ex_collaborators (tu_id ex_unit) ex_file_two) = None"
    by (simp add: ex_defs op_defs Let_def)
  have first: "getFirstElementByTagName (f_parsedDocument ex_file_two) ''translationbundle'' =
        Some (Element ''translationbundle'' [(''lang'', ''en'')]
                [Element ''translation'' [(''id'', ''a'')] [TextNode ''A''],
                 Element ''translation'' [] [TextNode ''B'']])"
    by (simp add: ex_file_two_def ex_doc_two_def getFirstElementByTagName_def getElementsByTagName_def)
  show ?thesis
    using r f first importNewTransUnit_returns_unit_on_reachable_file [OF r f, of False True]
    by auto
qed


text \<open>
  C10. For a file constructed with a master that has another number of units, the warnings
  are one warning about a missing id for every \<^verbatim>\<open>translation\<close> element without id, and
  after all of them the warning about the numbers of units.
\<close>

theorem missing_id_warnings_before_mismatch_warning:
  assumes "length (getElementsByTagName (parseFromString c x) ''translationbundle'') = 1"
    and "newXmbFile c (xmlContent om) (path om) (encoding om) = Some m"
    and "xmb_numberOfTransUnits m \<noteq> length (translationElements c x)"
  shows "\<exists>d. new_XtbFile c x p enc (Some om) = Inr d
           \<and> fst (warnings c d) =
               replicate (length (elementsWithoutId (translationElements c x))) (missing_id_warning p)
                 @ [master_mismatch_warning (xmb_numberOfTransUnits m) (length (translationElements c x))]"
proof -
  obtain d where d: "new_XtbFile c x p enc (Some om) = Inr d"
    "f_transUnits d = Some (map (unitOfElement (Some m)) (translationElements c x))"
    "f_warnings d =
       replicate (length (elementsWithoutId (translationElements c x))) (missing_id_warning p)
         @ (if xmb_numberOfTransUnits m \<noteq> length (translationElements c x)
            then [master_mismatch_warning (xmb_numberOfTransUnits m) (length (translationElements c x))]
            else [])"
    using new_XtbFile_master [OF assms(1,2), of p enc] by blast
  show ?thesis
    using d(1) assms(3) by (simp add: accessors_of_initialized [OF d(2)] d(3))
qed

theorem missing_id_warnings_before_mismatch_warning_witness:
  "length (getElementsByTagName (parseFromString ex_collaborators ex_text_two) ''translationbundle'') = 1
   \<and> newXmbFile ex_collaborators (xmlContent ex_master_content) (path ex_master_content)
        (encoding ex_master_content) = Some ex_master
   \<and> xmb_numberOfTransUnits ex_master \<noteq> length (translationElements ex_collaborators ex_text_two)
   \<and> new_XtbFile ex_collaborators ex_text_two ''messages.en.xtb'' ''UTF-8'' (Some ex_master_content)
        = Inr ex_file_two
   \<and> fst (warnings ex_collaborators ex_file_two) =
        [missing_id_warning ''messages.en.xtb'', master_mismatch_warning 1 2]"
proof -
  have n: "xmb_numberOfTransUnits ex_master = 1"
    by (simp add: xmb_numberOfTransUnits_def ex_master_def)
  have differ: "xmb_numberOfTransUnits ex_master \<noteq> length (translationElements ex_collaborators ex_text_two)"
    by (simp add: n ex_translations_two)
  from missing_id_warnings_before_mismatch_warning [OF ex_roots(3) ex_master_parses(1) differ,
      of "''messages.en.xtb''" "''UTF-8''"]
  have "fst (warnings ex_collaborators ex_file_two) =
        [missing_id_warning ''messages.en.xtb'', master_mismatch_warning 1 2]"
    by (simp add: ex_constructed(3) n ex_translations_two)
  with ex_roots(3) ex_master_parses(1) differ ex_constructed(3) show ?thesis
    by simp
qed

end
